theory Spec2Isabelle
  imports Main "HOL-Library.Word" "HOL-Library.Char_ord" "HOL-Library.List_Lexorder"
begin

unbundle bit_operations_syntax

section \<open>Data model of the tortoise beacon\<close>

text \<open>
  \<open>types.EpochID\<close> and \<open>types.RoundID\<close> are unsigned 64-bit integers (the code converts
  them with \<open>uint64(epoch)\<close> and writes an epoch as eight bytes); arithmetic on them wraps.
  A \<open>types.Hash32\<close> is a sequence of 32 bytes. A proposal is a Go string, a \<open>hashSet\<close>
  (\<open>map[proposal]struct{}\<close>) is a set of proposals.
\<close>

type_synonym EpochID = "64 word"
type_synonym RoundID = "64 word"
type_synonym byte = "8 word"
type_synonym Hash32 = "byte list"
type_synonym proposal = string
type_synonym hashSet = "proposal set"
type_synonym epochRoundPair = "EpochID \<times> RoundID"

record votesSetPair =
  ValidVotes :: hashSet
  InvalidVotes :: hashSet

text \<open>
  Errors are values. \<open>Wrap msg e\<close> is \<open>fmt.Errorf("msg: %w", e)\<close>; \<open>External s\<close> is an
  error handed back by a collaborator (the activation database, the key-value store,
  the broadcaster, the serializer).
\<close>

datatype error =
  ErrUnknownMessageType
  | ErrBeaconNotCalculated
  | ErrEmptyProposalList
  | ErrTimeout
  | External string
  | Wrap string error

text \<open>
  The beacon store of \<open>db.go\<close>: \<open>store\<close> is the key-value store behind it, and
  \<open>put_error\<close> is what the store's \<open>Put\<close> returns (\<open>None\<close> for \<open>nil\<close>).
\<close>

record DB =
  store :: "EpochID \<rightharpoonup> Hash32"
  put_error :: "error option"

text \<open>
  The part of the \<open>TortoiseBeacon\<close> struct of \<open>tortoise_beacon.go\<close> that the functions
  below read or write. \<open>currentEpoch\<close> is the value \<open>tb.currentEpoch()\<close> returns.
\<close>

record TortoiseBeacon =
  minerID :: string
  RoundsNumber :: RoundID
  tortoiseBeaconDB :: "DB option"
  currentEpoch :: EpochID
  validProposals :: "EpochID \<rightharpoonup> hashSet"
  ownVotes :: "epochRoundPair \<rightharpoonup> votesSetPair"
  beacons :: "EpochID \<rightharpoonup> Hash32"

section \<open>Hex strings and hashes\<close>

text \<open>
  Modelled from the spec: \<open>types.HexToHash32\<close>, \<open>types.BytesToHash\<close> and
  \<open>util.FromHex\<close> are not under src/. The spec calls a \<open>Hash32\<close> a 32-byte digest
  and a proposal a hex-encoded identifier; the functions below read a hex string (an
  optional \<open>0x\<close> prefix, an odd number of digits padded with a leading \<open>0\<close>) into
  bytes and right-align the bytes in 32 zero bytes, keeping the last 32 when there are more.
\<close>

definition fromHexChar :: "char \<Rightarrow> byte option" where
  "fromHexChar c =
     (let n = (of_char c :: nat) in
      if 48 \<le> n \<and> n \<le> 57 then Some (of_nat (n - 48))
      else if 97 \<le> n \<and> n \<le> 102 then Some (of_nat (n - 97 + 10))
      else if 65 \<le> n \<and> n \<le> 70 then Some (of_nat (n - 65 + 10))
      else None)"

fun Hex2Bytes :: "string \<Rightarrow> byte list" where
  "Hex2Bytes (a # b # rest) =
     (case fromHexChar a of
        None \<Rightarrow> []
      | Some h \<Rightarrow>
          (case fromHexChar b of
             None \<Rightarrow> []
           | Some l \<Rightarrow> (push_bit 4 h OR l) # Hex2Bytes rest))"
| "Hex2Bytes _ = []"

definition FromHex :: "string \<Rightarrow> byte list" where
  "FromHex s =
     (let s1 = (if 1 < length s \<and> (take 2 s = ''0x'' \<or> take 2 s = ''0X'') then drop 2 s else s);
          s2 = (if odd (length s1) then CHR ''0'' # s1 else s1)
      in Hex2Bytes s2)"

definition BytesToHash :: "byte list \<Rightarrow> Hash32" where
  "BytesToHash b =
     (let b1 = (if 32 < length b then drop (length b - 32) b else b)
      in replicate (32 - length b1) 0 @ b1)"

definition HexToHash32 :: "string \<Rightarrow> Hash32" where
  "HexToHash32 s = BytesToHash (FromHex s)"

definition genesisBeacon :: Hash32 where
  "genesisBeacon = HexToHash32 ''0x00''"

subsection \<open>The digest of a proposal list\<close>

text \<open>
  Modelled from the spec: \<open>proposalList.Hash\<close> is not under src/. The spec calls the
  beacon the 32-byte digest of the concatenation of the list entries in their order. The
  digest is SHA-256 (FIPS 180-4), written out below on 32-bit words with its round
  constants and initial hash value in decimal, over the entries read as 32-byte hashes;
  this is the construction whose value on the list of \<open>TestTortoiseBeacon_calcBeacon\<close>
  is the hash that test expects.
\<close>

type_synonym u32 = "32 word"

definition rotr :: "nat \<Rightarrow> u32 \<Rightarrow> u32" where
  "rotr n x = drop_bit n x OR push_bit (32 - n) x"

definition Ch :: "u32 \<Rightarrow> u32 \<Rightarrow> u32 \<Rightarrow> u32" where
  "Ch x y z = (x AND y) XOR (NOT x AND z)"

definition Maj :: "u32 \<Rightarrow> u32 \<Rightarrow> u32 \<Rightarrow> u32" where
  "Maj x y z = (x AND y) XOR (x AND z) XOR (y AND z)"

definition bsig0 :: "u32 \<Rightarrow> u32" where
  "bsig0 x = rotr 2 x XOR rotr 13 x XOR rotr 22 x"

definition bsig1 :: "u32 \<Rightarrow> u32" where
  "bsig1 x = rotr 6 x XOR rotr 11 x XOR rotr 25 x"

definition ssig0 :: "u32 \<Rightarrow> u32" where
  "ssig0 x = rotr 7 x XOR rotr 18 x XOR drop_bit 3 x"

definition ssig1 :: "u32 \<Rightarrow> u32" where
  "ssig1 x = rotr 17 x XOR rotr 19 x XOR drop_bit 10 x"

definition K256 :: "u32 list" where
  "K256 =
     [1116352408, 1899447441, 3049323471, 3921009573, 961987163, 1508970993,
      2453635748, 2870763221, 3624381080, 310598401, 607225278, 1426881987,
      1925078388, 2162078206, 2614888103, 3248222580, 3835390401, 4022224774,
      264347078, 604807628, 770255983, 1249150122, 1555081692, 1996064986,
      2554220882, 2821834349, 2952996808, 3210313671, 3336571891, 3584528711,
      113926993, 338241895, 666307205, 773529912, 1294757372, 1396182291,
      1695183700, 1986661051, 2177026350, 2456956037, 2730485921, 2820302411,
      3259730800, 3345764771, 3516065817, 3600352804, 4094571909, 275423344,
      430227734, 506948616, 659060556, 883997877, 958139571, 1322822218,
      1537002063, 1747873779, 1955562222, 2024104815, 2227730452, 2361852424,
      2428436474, 2756734187, 3204031479, 3329325298]"

definition H256 :: "u32 list" where
  "H256 =
     [1779033703, 3144134277, 1013904242, 2773480762,
      1359893119, 2600822924, 528734635, 1541459225]"

text \<open>
  The message schedule is kept as a window of sixteen words: its head is the word of the
  current round, and the next window drops the head and appends the next scheduled word.
\<close>

fun next_window :: "u32 list \<Rightarrow> u32 list" where
  "next_window (w0 # w1 # w2 # w3 # w4 # w5 # w6 # w7 # w8 # w9 # w10 # w11 # w12 # w13 # w14 # rest) =
     w1 # w2 # w3 # w4 # w5 # w6 # w7 # w8 # w9 # w10 # w11 # w12 # w13 # w14 # rest
       @ [ssig1 w14 + w9 + ssig0 w1 + w0]"
| "next_window ws = ws"

definition shift_state :: "u32 \<Rightarrow> u32 \<Rightarrow> u32 list \<Rightarrow> u32 list" where
  "shift_state t1 t2 s =
     (case s of [a, b, c, d, e, f, g, h] \<Rightarrow> [t1 + t2, a, b, c, d + t1, e, f, g] | _ \<Rightarrow> s)"

definition sha_round :: "u32 \<Rightarrow> u32 \<Rightarrow> u32 list \<Rightarrow> u32 list" where
  "sha_round k w s =
     (case s of
        [a, b, c, d, e, f, g, h] \<Rightarrow>
          shift_state (h + bsig1 e + Ch e f g + k + w) (bsig0 a + Maj a b c) s
      | _ \<Rightarrow> s)"

fun sha_rounds :: "u32 list \<Rightarrow> u32 list \<Rightarrow> u32 list \<Rightarrow> u32 list" where
  "sha_rounds [] w s = s"
| "sha_rounds (k # ks) w s = sha_rounds ks (next_window w) (sha_round k (hd w) s)"

definition compress :: "u32 list \<Rightarrow> u32 list \<Rightarrow> u32 list" where
  "compress h block = map2 (+) h (sha_rounds K256 block h)"

fun be_words :: "byte list \<Rightarrow> u32 list" where
  "be_words (b0 # b1 # b2 # b3 # rest) =
     (push_bit 24 (ucast b0) OR push_bit 16 (ucast b1) OR push_bit 8 (ucast b2) OR ucast b3)
       # be_words rest"
| "be_words _ = []"

definition be_bytes32 :: "u32 \<Rightarrow> byte list" where
  "be_bytes32 w = [ucast (drop_bit 24 w), ucast (drop_bit 16 w), ucast (drop_bit 8 w), ucast w]"

definition be_bytes64 :: "64 word \<Rightarrow> byte list" where
  "be_bytes64 w = map (\<lambda>i. ucast (drop_bit (8 * (7 - i)) w)) [0..<8]"

definition sha_pad :: "byte list \<Rightarrow> byte list" where
  "sha_pad m = m @ [0x80] @ replicate ((119 - length m mod 64) mod 64) 0
                 @ be_bytes64 (of_nat (8 * length m))"

fun sha_blocks :: "u32 list \<Rightarrow> u32 list \<Rightarrow> u32 list" where
  "sha_blocks h ws =
     (if length ws < 16 then h else sha_blocks (compress h (take 16 ws)) (drop 16 ws))"

declare sha_blocks.simps [simp del]

definition sha256 :: "byte list \<Rightarrow> byte list" where
  "sha256 m = concat (map be_bytes32 (sha_blocks H256 (be_words (sha_pad m))))"

definition Hash :: "proposal list \<Rightarrow> Hash32" where
  "Hash hl = sha256 (concat (map HexToHash32 hl))"

section \<open>Cleanup of old beacons\<close>

definition cleanupEpochs :: EpochID where
  "cleanupEpochs = 1000"

text \<open>\<open>epochIsOutdated\<close>: \<open>tb.currentEpoch()-epoch > cleanupEpochs\<close>, on unsigned integers.\<close>

definition epochIsOutdated :: "TortoiseBeacon \<Rightarrow> EpochID \<Rightarrow> bool" where
  "epochIsOutdated tb epoch \<longleftrightarrow> currentEpoch tb - epoch > cleanupEpochs"

text \<open>
  \<open>cleanup\<close> ranges over the keys of \<open>tb.beacons\<close> and deletes every key that is
  outdated; the other entries stay.
\<close>

definition cleanup :: "TortoiseBeacon \<Rightarrow> TortoiseBeacon" where
  "cleanup tb =
     tb\<lparr>beacons := (\<lambda>e. if epochIsOutdated tb e then None else beacons tb e)\<rparr>"

section \<open>Collaborators\<close>

text \<open>
  What the node sends: a \<open>ProposalMessage\<close> (miner, VRF signature), the body of a
  \<open>BeaconSyncMessage\<close> (miner, epoch, beacon) and the signed message (body and signature).
\<close>

datatype message =
  ProposalMessage string "byte list"
  | BeaconSyncMessageBody string EpochID Hash32
  | BeaconSyncMessage string EpochID Hash32 "byte list"

text \<open>
  The code of other packages and of files that are not under src/ is taken as a
  parameter: \<open>IsGenesis\<close> is \<open>types.EpochID.IsGenesis\<close>; \<open>InterfaceToBytes\<close> is the
  serializer and \<open>calcProposal\<close> its use on the proposal preimage of an epoch;
  \<open>vrfSign\<close> and \<open>edSign\<close> are the two signers; \<open>GetEpochWeight\<close> is the activation
  database's weight lookup; \<open>atxThreshold\<close> is the threshold the node computes from the
  epoch weight with \<open>big.Float\<close> and \<open>bigfloat.Pow\<close>; \<open>Broadcast\<close> is the broadcaster;
  \<open>Bytes2Hex\<close> is \<open>util.Bytes2Hex\<close>; \<open>runConsensusPhase\<close> is the voting rounds, which
  run in goroutines on timers; \<open>calcVotes\<close> is the vote calculation of votes_calc.go;
  \<open>rangeKeys\<close> is the order in which Go's \<open>range\<close> visits the keys of a map.
\<close>

record Env =
  IsGenesis :: "EpochID \<Rightarrow> bool"
  InterfaceToBytes :: "message \<Rightarrow> error + byte list"
  calcProposal :: "EpochID \<Rightarrow> error + byte list"
  vrfSign :: "byte list \<Rightarrow> byte list"
  edSign :: "byte list \<Rightarrow> byte list"
  GetEpochWeight :: "EpochID \<Rightarrow> error + 64 word"
  atxThreshold :: "64 word \<Rightarrow> int"
  Broadcast :: "string \<Rightarrow> byte list \<Rightarrow> error option"
  Bytes2Hex :: "byte list \<Rightarrow> string"
  runConsensusPhase :: "TortoiseBeacon \<Rightarrow> EpochID \<Rightarrow> error option \<times> TortoiseBeacon"
  calcVotes :: "TortoiseBeacon \<Rightarrow> EpochID \<Rightarrow> RoundID \<Rightarrow> (error + votesSetPair) \<times> TortoiseBeacon"
  rangeKeys :: "hashSet \<Rightarrow> proposal list"

text \<open>The channels named in the spec's list of consumed services.\<close>

definition TBProposalProtocol :: string where
  "TBProposalProtocol = ''TBProposal''"

definition TBBeaconSyncProtocol :: string where
  "TBBeaconSyncProtocol = ''TBBeaconSync''"

section \<open>The beacon store (db.go)\<close>

definition GetTortoiseBeacon :: "DB \<Rightarrow> EpochID \<Rightarrow> Hash32 \<times> bool" where
  "GetTortoiseBeacon db epochID =
     (case store db epochID of
        None \<Rightarrow> (replicate 32 0, False)
      | Some h \<Rightarrow> (BytesToHash h, True))"

definition SetTortoiseBeacon :: "DB \<Rightarrow> EpochID \<Rightarrow> Hash32 \<Rightarrow> error + DB" where
  "SetTortoiseBeacon db epochID beacon =
     (case put_error db of
        Some err \<Rightarrow> Inl (Wrap ''failed to add tortoise beacon'' err)
      | None \<Rightarrow> Inr (db\<lparr>store := (store db)(epochID \<mapsto> beacon)\<rparr>))"

section \<open>Genesis beacons and GetBeacon (tortoise_beacon.go)\<close>

text \<open>
  \<open>initGenesisBeacons\<close>: \<open>for epoch := 0; epoch.IsGenesis(); epoch++\<close> stores the genesis
  beacon. The loop ends at the first epoch that is not a genesis epoch; it does not
  return when every epoch is one, which is the value \<open>None\<close>.
\<close>

partial_function (option) initGenesisBeacons_loop ::
  "(EpochID \<Rightarrow> bool) \<Rightarrow> EpochID \<Rightarrow> (EpochID \<rightharpoonup> Hash32) \<Rightarrow> (EpochID \<rightharpoonup> Hash32) option" where
  "initGenesisBeacons_loop isGen epoch bs =
     (if isGen epoch then initGenesisBeacons_loop isGen (epoch + 1) (bs(epoch \<mapsto> genesisBeacon))
      else Some bs)"

definition initGenesisBeacons :: "Env \<Rightarrow> TortoiseBeacon \<Rightarrow> TortoiseBeacon option" where
  "initGenesisBeacons env tb =
     (case initGenesisBeacons_loop (IsGenesis env) 0 (beacons tb) of
        None \<Rightarrow> None
      | Some bs \<Rightarrow> Some (tb\<lparr>beacons := bs\<rparr>))"

text \<open>
  The retry loop of \<open>GetBeacon\<close>: up to 50 reads of \<open>tb.beacons[epochID-1]\<close>, each miss
  followed by a sleep of one second. The read lock is held for the whole loop, so the map
  does not change between the reads. The result is the beacon read last (the zero hash
  after a miss), whether it was found, and the number of seconds slept.
\<close>

function GetBeacon_loop :: "TortoiseBeacon \<Rightarrow> EpochID \<Rightarrow> nat \<Rightarrow> nat \<Rightarrow> Hash32 \<times> bool \<times> nat" where
  "GetBeacon_loop tb epochID i slept =
     (if i < 50 then
        (case beacons tb (epochID - 1) of
           None \<Rightarrow> GetBeacon_loop tb epochID (i + 1) (slept + 1)
         | Some beacon \<Rightarrow> (beacon, True, slept))
      else (replicate 32 0, False, slept))"
  by pat_completeness auto
termination
  by (relation "measure (\<lambda>(tb, epochID, i, slept). 50 - i)") auto

declare GetBeacon_loop.simps [simp del]

text \<open>
  \<open>GetBeacon\<close> returns the bytes or the error, the node afterwards (the beacon store may
  have been written), and the number of seconds it slept.
\<close>

definition GetBeacon ::
  "Env \<Rightarrow> TortoiseBeacon \<Rightarrow> EpochID \<Rightarrow> (error + byte list) \<times> TortoiseBeacon \<times> nat" where
  "GetBeacon env tb epochID =
     (case (case tortoiseBeaconDB tb of
              None \<Rightarrow> None
            | Some db \<Rightarrow> (case GetTortoiseBeacon db epochID of (v, ok) \<Rightarrow> if ok then Some v else None)) of
        Some v \<Rightarrow> (Inr v, tb, 0)
      | None \<Rightarrow>
          if IsGenesis env (epochID - 1) then (Inr genesisBeacon, tb, 0)
          else
            (case GetBeacon_loop tb epochID 0 0 of
               (beacon, ok, slept) \<Rightarrow>
                 (case tortoiseBeaconDB tb of
                    None \<Rightarrow> (Inr beacon, tb, slept)
                  | Some db \<Rightarrow>
                      (case SetTortoiseBeacon db epochID beacon of
                         Inl err \<Rightarrow> (Inl (Wrap ''update beacon in DB'' err), tb, slept)
                       | Inr db1 \<Rightarrow> (Inr beacon, tb\<lparr>tortoiseBeaconDB := Some db1\<rparr>, slept)))))"

section \<open>The proposal phase (tortoise_beacon.go)\<close>

definition calcProposalSignature :: "Env \<Rightarrow> EpochID \<Rightarrow> error + byte list" where
  "calcProposalSignature env epoch =
     (case calcProposal env epoch of
        Inl err \<Rightarrow> Inl (Wrap ''calculate proposal'' err)
      | Inr p \<Rightarrow> Inr (vrfSign env p))"

text \<open>\<open>new(big.Int).SetBytes\<close>: the bytes as an unsigned big-endian integer.\<close>

definition SetBytes :: "byte list \<Rightarrow> int" where
  "SetBytes bs = foldl (\<lambda>acc b. acc * 256 + uint b) 0 bs"

text \<open>
  \<open>proposalPassesEligibilityThreshold\<close>: the comparison \<open>proposalInt.Cmp(threshold) == -1\<close>
  is on integers of any size; \<open>atxThreshold\<close> returns no error.
\<close>

definition proposalPassesEligibilityThreshold :: "Env \<Rightarrow> byte list \<Rightarrow> 64 word \<Rightarrow> error + bool" where
  "proposalPassesEligibilityThreshold env proposal epochWeight =
     Inr (SetBytes proposal < atxThreshold env epochWeight)"

definition sendToGossip :: "Env \<Rightarrow> string \<Rightarrow> message \<Rightarrow> error option" where
  "sendToGossip env channel m =
     (case InterfaceToBytes env m of
        Inl err \<Rightarrow> Some (Wrap ''serializing'' err)
      | Inr serialized \<Rightarrow> Broadcast env channel serialized)"

definition calcEligibilityProof :: "Env \<Rightarrow> message \<Rightarrow> error + byte list" where
  "calcEligibilityProof env m =
     (case InterfaceToBytes env m of
        Inl err \<Rightarrow> Inl err
      | Inr encoded \<Rightarrow> Inr (edSign env encoded))"

text \<open>
  \<open>runProposalPhase\<close> returns the error, or the node with the own proposal added to the
  valid proposals of the epoch (unchanged when the proposal does not pass the threshold).
\<close>

definition runProposalPhase :: "Env \<Rightarrow> TortoiseBeacon \<Rightarrow> EpochID \<Rightarrow> error + TortoiseBeacon" where
  "runProposalPhase env tb epoch =
     (case calcProposalSignature env epoch of
        Inl err \<Rightarrow> Inl (Wrap ''calculate signed proposal'' err)
      | Inr proposedSignature \<Rightarrow>
          (case GetEpochWeight env epoch of
             Inl err \<Rightarrow> Inl (Wrap ''get epoch weight'' err)
           | Inr epochWeight \<Rightarrow>
               (case proposalPassesEligibilityThreshold env proposedSignature epochWeight of
                  Inl err \<Rightarrow> Inl (Wrap ''proposalPassesEligibilityThreshold'' err)
                | Inr passes \<Rightarrow>
                    if \<not> passes then Inr tb
                    else
                      (case sendToGossip env TBProposalProtocol
                              (ProposalMessage (minerID tb) proposedSignature) of
                         Some err \<Rightarrow> Inl (Wrap ''broadcast proposal message'' err)
                       | None \<Rightarrow>
                           Inr (tb\<lparr>validProposals := (validProposals tb)
                                  (epoch \<mapsto> insert (Bytes2Hex env proposedSignature)
                                     (case validProposals tb epoch of None \<Rightarrow> {} | Some ps \<Rightarrow> ps))\<rparr>)))))"

section \<open>Beacon calculation (beacon_calc.go)\<close>

definition lastPossibleRound :: "TortoiseBeacon \<Rightarrow> RoundID" where
  "lastPossibleRound tb = RoundsNumber tb"

text \<open>
  \<open>calcTortoiseBeaconHashList\<close>: the own votes of the last round, recalculated and
  recorded when they are absent; their valid votes are appended in the order \<open>range\<close>
  visits them and sorted with \<open>strings.Compare(a, b) == -1\<close> as the less-than, the
  order of strings by their bytes.
\<close>

definition calcTortoiseBeaconHashList ::
  "Env \<Rightarrow> TortoiseBeacon \<Rightarrow> EpochID \<Rightarrow> (error + proposal list) \<times> TortoiseBeacon" where
  "calcTortoiseBeaconHashList env tb epoch =
     (let lastRound = (epoch, lastPossibleRound tb) in
      case ownVotes tb lastRound of
        Some votes \<Rightarrow> (Inr (sort (rangeKeys env (ValidVotes votes))), tb)
      | None \<Rightarrow>
          (case calcVotes env tb epoch (snd lastRound) of
             (Inl err, tb1) \<Rightarrow> (Inl (Wrap ''recalculate votes'' err), tb1)
           | (Inr v, tb1) \<Rightarrow>
               (Inr (sort (rangeKeys env (ValidVotes v))),
                tb1\<lparr>ownVotes := (ownVotes tb1)(lastRound \<mapsto> v)\<rparr>)))"

text \<open>
  What Go promises of \<open>range\<close> over a map: every key of the map is visited, and visited
  once. The order is not fixed.
\<close>

definition visitsEachKeyOnce :: "Env \<Rightarrow> hashSet \<Rightarrow> bool" where
  "visitsEachKeyOnce env ps \<longleftrightarrow> set (rangeKeys env ps) = ps \<and> distinct (rangeKeys env ps)"

definition syncBeacon :: "Env \<Rightarrow> TortoiseBeacon \<Rightarrow> EpochID \<Rightarrow> Hash32 \<Rightarrow> error option" where
  "syncBeacon env tb epoch beacon =
     (case calcEligibilityProof env (BeaconSyncMessageBody (minerID tb) epoch beacon) of
        Inl err \<Rightarrow> Some (Wrap ''calcEligibilityProof'' err)
      | Inr sig \<Rightarrow>
          (case sendToGossip env TBBeaconSyncProtocol (BeaconSyncMessage (minerID tb) epoch beacon sig) of
             Some err \<Rightarrow> Some (Wrap ''sendToGossip'' err)
           | None \<Rightarrow> None))"

text \<open>
  \<open>calcBeacon\<close> stores the digest of the hash list under the epoch before it sends the
  sync message, so a failed send leaves the beacon stored.
\<close>

definition calcBeacon :: "Env \<Rightarrow> TortoiseBeacon \<Rightarrow> EpochID \<Rightarrow> error option \<times> TortoiseBeacon" where
  "calcBeacon env tb epoch =
     (case calcTortoiseBeaconHashList env tb epoch of
        (Inl err, tb1) \<Rightarrow> (Some (Wrap ''calc tortoise beacon hash list'' err), tb1)
      | (Inr allHashes, tb1) \<Rightarrow>
          (let beacon = Hash allHashes;
               tb2 = tb1\<lparr>beacons := (beacons tb1)(epoch \<mapsto> beacon)\<rparr>
           in case syncBeacon env tb2 epoch beacon of
                Some err \<Rightarrow> (Some (Wrap ''sync beacon'' err), tb2)
              | None \<Rightarrow> (None, tb2)))"

section \<open>The scheduler (tortoise_beacon.go)\<close>

datatype phase = ProposalPhase | ConsensusPhase | BeaconCalculation

text \<open>
  \<open>handleEpoch\<close> returns the node afterwards, the phases it ran in their order, and the
  errors it logged, each with the message of the log line.
\<close>

definition handleEpoch ::
  "Env \<Rightarrow> TortoiseBeacon \<Rightarrow> EpochID \<Rightarrow> TortoiseBeacon \<times> phase list \<times> (string \<times> error) list" where
  "handleEpoch env tb epoch =
     (if IsGenesis env epoch then (tb, [], [])
      else
        (case runProposalPhase env tb epoch of
           Inl err \<Rightarrow> (tb, [ProposalPhase], [(''Failed to send proposal'', err)])
         | Inr tb1 \<Rightarrow>
             (case runConsensusPhase env tb1 epoch of
                (cerr, tb2) \<Rightarrow>
                  (case calcBeacon env tb2 epoch of
                     (berr, tb3) \<Rightarrow>
                       (tb3, [ProposalPhase, ConsensusPhase, BeaconCalculation],
                        (case cerr of None \<Rightarrow> [] | Some err \<Rightarrow> [(''Failed to run consensus phase'', err)])
                        @ (case berr of None \<Rightarrow> [] | Some err \<Rightarrow> [(''Failed to calculate beacon'', err)]))))))"

section \<open>GetBeacon of the earlier revision (tortoisebeacon.go)\<close>

text \<open>
  \<open>binary.LittleEndian.PutUint64(ret, v)\<close> writes the eight bytes of \<open>v\<close>, lowest first,
  at the start of \<open>ret\<close>.
\<close>

definition PutUint64 :: "byte list \<Rightarrow> 64 word \<Rightarrow> byte list" where
  "PutUint64 ret v = map (\<lambda>i. ucast (drop_bit (8 * i) v)) [0..<8] @ drop 8 ret"

text \<open>
  \<open>GetBeacon\<close> of tortoisebeacon.go returns after it has written the epoch number into 32
  zero bytes; the call of \<open>Wait\<close> and the lookup stand after that \<open>return\<close> and never run.
  The result is \<open>Some\<close> bytes, where \<open>None\<close> would be the \<open>nil\<close> of the lines that never run.
\<close>

definition GetBeacon_mock :: "EpochID \<Rightarrow> byte list option" where
  "GetBeacon_mock epochNumber = Some (PutUint64 (replicate 32 0) epochNumber)"

section \<open>Votes: weights, margins and adoption\<close>

text \<open>
  \<open>voteWeight\<close> of tortoise_beacon.go: the lookup of a voter's weight is switched off
  (\<open>enabled := false\<close>), so the function returns 1 and no error for every voter.
\<close>

definition voteWeight :: "string \<Rightarrow> EpochID \<Rightarrow> error + 64 word" where
  "voteWeight pk epochID = Inr 1"

definition firstRound :: RoundID where
  "firstRound = 1"

text \<open>
  A \<open>votesMarginMap\<close> is \<open>map[proposal]int\<close>; reading a key that is absent gives 0. The
  votes of one round, \<open>map[nodeID]votesSetPair\<close>, are listed in the order \<open>range\<close>
  visits the voters.
\<close>

type_synonym votesMarginMap = "proposal \<rightharpoonup> int"
type_synonym votesPerPK = "(string \<times> votesSetPair) list"

definition margin :: "votesMarginMap \<Rightarrow> proposal \<Rightarrow> int" where
  "margin m p = (case m p of None \<Rightarrow> 0 | Some x \<Rightarrow> x)"

text \<open>
  Modelled from the spec: \<open>firstRoundVotes\<close> is in votes_calc.go, which is not under
  src/. The spec's margin accumulation: for each received first-round vote of a voter
  with weight \<open>w\<close>, \<open>margin[p] += w\<close> for each \<open>p\<close> of its valid votes and
  \<open>margin[p] -= w\<close> for each \<open>p\<close> of its invalid votes.
\<close>

definition addToMargin :: "int \<Rightarrow> hashSet \<Rightarrow> votesMarginMap \<Rightarrow> votesMarginMap" where
  "addToMargin w ps m = (\<lambda>p. if p \<in> ps then Some (margin m p + w) else m p)"

fun tallyVotes :: "(string \<Rightarrow> int) \<Rightarrow> votesPerPK \<Rightarrow> votesMarginMap \<Rightarrow> votesMarginMap" where
  "tallyVotes w [] m = m"
| "tallyVotes w ((pk, v) # rest) m =
     tallyVotes w rest (addToMargin (- w pk) (InvalidVotes v) (addToMargin (w pk) (ValidVotes v) m))"

definition firstRoundVotes ::
  "(string \<Rightarrow> int) \<Rightarrow> (epochRoundPair \<Rightarrow> votesPerPK) \<Rightarrow> EpochID \<Rightarrow> votesMarginMap" where
  "firstRoundVotes w incomingVotes epoch =
     tallyVotes w (incomingVotes (epoch, firstRound)) Map.empty"

text \<open>
  Modelled from the spec: \<open>calcOwnCurrentRoundVotes\<close> is in votes_calc.go, which is not
  under src/. The spec's adoption rule: a proposal whose margin reaches the voting
  threshold in absolute value is valid when the margin is positive and invalid when it
  is negative; every other proposal of the margin map, one with margin 0 included,
  follows the weak coin of the round. The spec's rule text writes the comparison as
  \<open>|margin[p]| > votingThreshold\<close>; its scenario S5 (threshold 2, the margins of S4) and
  \<open>TestTortoiseBeacon_calcOwnFirstRoundVotes\<close> (\<open>const threshold = 2\<close>) decide the
  margins 2 and -2, so a margin equal to the threshold is decided, and the model
  compares with \<open>\<ge>\<close>. The threshold is the integer the spec writes \<open>\<lfloor>\<theta>\<cdot>W\<rfloor>\<close>.
\<close>

datatype adoption = AdoptValid | AdoptInvalid

definition adopt :: "int \<Rightarrow> bool \<Rightarrow> int \<Rightarrow> adoption" where
  "adopt votingThreshold coin m =
     (if \<bar>m\<bar> \<ge> votingThreshold \<and> m > 0 then AdoptValid
      else if \<bar>m\<bar> \<ge> votingThreshold \<and> m < 0 then AdoptInvalid
      else if coin then AdoptValid
      else AdoptInvalid)"

definition calcOwnCurrentRoundVotes ::
  "int \<Rightarrow> (EpochID \<Rightarrow> RoundID \<Rightarrow> bool) \<Rightarrow> EpochID \<Rightarrow> RoundID \<Rightarrow> votesMarginMap \<Rightarrow> votesSetPair" where
  "calcOwnCurrentRoundVotes votingThreshold weakCoin epoch round votesMargin =
     \<lparr>ValidVotes =
        {p \<in> dom votesMargin. adopt votingThreshold (weakCoin epoch round) (margin votesMargin p) = AdoptValid},
      InvalidVotes =
        {p \<in> dom votesMargin. adopt votingThreshold (weakCoin epoch round) (margin votesMargin p) = AdoptInvalid}\<rparr>"

section \<open>The vote codec\<close>

text \<open>The first-round lists of a voter, \<open>proposals\<close> in the tests of the codec.\<close>

record proposals =
  ValidProposals :: "proposal list"
  PotentiallyValidProposals :: "proposal list"

text \<open>
  Modelled from the spec: \<open>encodeVotes\<close> and \<open>decodeVotes\<close> are in votes_encoder.go,
  which is not under src/. The spec's codec: \<open>L\<close> is the first-round valid list followed
  by the potentially valid list; bit \<open>i\<close> of the little-endian bit-vector (bit
  \<open>i mod 64\<close> of word \<open>i div 64\<close>) is 1 iff \<open>L[i]\<close> is a current valid vote; the vector
  has \<open>|L|\<close> bits rounded up to whole words, the bits past \<open>|L|\<close> zero. Decoding reads
  the bits back: \<open>L[i]\<close> is valid when bit \<open>i\<close> is 1 and invalid when it is 0.
\<close>

definition firstRoundList :: "proposals \<Rightarrow> proposal list" where
  "firstRoundList fr = ValidProposals fr @ PotentiallyValidProposals fr"

definition encodeVotes :: "votesSetPair \<Rightarrow> proposals \<Rightarrow> 64 word list" where
  "encodeVotes currentRound fr =
     (let L = firstRoundList fr in
      map (\<lambda>k. horner_sum of_bool 2
                 (map (\<lambda>i. L ! i \<in> ValidVotes currentRound) [64 * k ..< min (64 * k + 64) (length L)]))
          [0 ..< (length L + 63) div 64])"

definition bitAt :: "64 word list \<Rightarrow> nat \<Rightarrow> bool" where
  "bitAt bv i \<longleftrightarrow> i div 64 < length bv \<and> bit (bv ! (i div 64)) (i mod 64)"

definition decodeVotes :: "64 word list \<Rightarrow> proposals \<Rightarrow> votesSetPair" where
  "decodeVotes bv fr =
     (let L = firstRoundList fr in
      \<lparr>ValidVotes = set (map (\<lambda>i. L ! i) (filter (\<lambda>i. bitAt bv i) [0 ..< length L])),
       InvalidVotes = set (map (\<lambda>i. L ! i) (filter (\<lambda>i. \<not> bitAt bv i) [0 ..< length L]))\<rparr>)"

section \<open>A node for the examples\<close>

text \<open>A node with three rounds, no beacon store and nothing recorded, at epoch 5.\<close>

definition tb0 :: TortoiseBeacon where
  "tb0 = \<lparr>minerID = ''miner'', RoundsNumber = 3, tortoiseBeaconDB = None, currentEpoch = 5,
     validProposals = Map.empty, ownVotes = Map.empty, beacons = Map.empty\<rparr>"

text \<open>
  Collaborators for the examples: epochs 0 and 1 are the genesis epochs, every lookup and
  every send succeeds, the epoch weight is 10, the vote calculation fails, and \<open>range\<close>
  visits the keys of a map in descending order.
\<close>

definition env0 :: Env where
  "env0 = \<lparr>IsGenesis = (\<lambda>e. e < 2), InterfaceToBytes = (\<lambda>m. Inr []),
     calcProposal = (\<lambda>e. Inr []), vrfSign = (\<lambda>p. p), edSign = (\<lambda>p. p),
     GetEpochWeight = (\<lambda>e. Inr 10), atxThreshold = (\<lambda>w. 0),
     Broadcast = (\<lambda>c d. None), Bytes2Hex = (\<lambda>b. ''''),
     runConsensusPhase = (\<lambda>tb e. (None, tb)),
     calcVotes = (\<lambda>tb e r. (Inl ErrEmptyProposalList, tb)),
     rangeKeys = (\<lambda>ps. rev (sorted_list_of_set ps))\<rparr>"

text \<open>An empty beacon store whose writes succeed, and one whose writes fail.\<close>

definition db_ok :: DB where
  "db_ok = \<lparr>store = Map.empty, put_error = None\<rparr>"

definition db_failing :: DB where
  "db_failing = \<lparr>store = Map.empty, put_error = Some (External ''put failed'')\<rparr>"

text \<open>The same collaborators with an activation database whose weight lookup fails.\<close>

definition env_noweight :: Env where
  "env_noweight = env0\<lparr>GetEpochWeight := (\<lambda>e. Inl (External ''no weight''))\<rparr>"

text \<open>
  The first-round votes of the two voters of \<open>TestTortoiseBeacon_firstRoundVotes\<close>, the
  margins of \<open>TestTortoiseBeacon_calcOwnCurrentRoundVotes\<close> (its threshold is 3), and the
  first-round lists and current votes of \<open>TestTortoiseBeacon_encodeVotes\<close>.
\<close>

definition votes_S4 :: votesPerPK where
  "votes_S4 =
     [(''pk1'', \<lparr>ValidVotes = {''0x1'', ''0x2''}, InvalidVotes = {''0x3'', ''0x5'', ''0x6''}\<rparr>),
      (''pk2'', \<lparr>ValidVotes = {''0x1'', ''0x4'', ''0x5''}, InvalidVotes = {''0x6''}\<rparr>)]"

definition margins_test :: votesMarginMap where
  "margins_test = [''0x1'' \<mapsto> 6, ''0x2'' \<mapsto> - 9, ''0x3'' \<mapsto> 1]"

text \<open>
  The margins of S4, which S5 adopts from at threshold 2, and the margins of the votes of
  \<open>TestTortoiseBeacon_calcOwnFirstRoundVotes\<close>.
\<close>

definition margins_S4 :: votesMarginMap where
  "margins_S4 =
     [''0x1'' \<mapsto> 2, ''0x2'' \<mapsto> 1, ''0x3'' \<mapsto> - 1, ''0x4'' \<mapsto> 1, ''0x5'' \<mapsto> 0, ''0x6'' \<mapsto> - 2]"

definition margins_firstRoundTest :: votesMarginMap where
  "margins_firstRoundTest =
     [''0x1'' \<mapsto> 2, ''0x2'' \<mapsto> 1, ''0x3'' \<mapsto> - 1, ''0x4'' \<mapsto> 1, ''0x5'' \<mapsto> 1, ''0x6'' \<mapsto> - 2]"

text \<open>
  The node after \<open>initGenesisBeacons\<close> with the genesis epochs 0 and 1: the zero beacon
  is stored for both.
\<close>

definition tb_genesis :: TortoiseBeacon where
  "tb_genesis = tb0\<lparr>beacons := (\<lambda>e. if e < 2 then Some (replicate 32 0) else None)\<rparr>"

definition firstRound_S3 :: proposals where
  "firstRound_S3 = \<lparr>ValidProposals = [''0x1'', ''0x2''], PotentiallyValidProposals = [''0x3'']\<rparr>"

definition votes_S3 :: votesSetPair where
  "votes_S3 = \<lparr>ValidVotes = {''0x1'', ''0x3''}, InvalidVotes = {''0x2''}\<rparr>"

text \<open>
  S1: the own votes of the last round, round 3 of epoch 5, as the case "With Cache" of
  \<open>TestTortoiseBeacon_calcBeacon\<close> sets them; and collaborators whose vote calculation
  returns these votes.
\<close>

definition votes_S1 :: votesSetPair where
  "votes_S1 = \<lparr>ValidVotes = {''0x1'', ''0x2'', ''0x4'', ''0x5''}, InvalidVotes = {''0x3'', ''0x6''}\<rparr>"

definition tb_S1 :: TortoiseBeacon where
  "tb_S1 = tb0\<lparr>ownVotes := [(5, 3) \<mapsto> votes_S1]\<rparr>"

definition env_recalc :: Env where
  "env_recalc = env0\<lparr>calcVotes := (\<lambda>tb e r. (Inr votes_S1, tb))\<rparr>"

text \<open>The bytes the digest of S1 is taken of: the four proposals as 32-byte hashes.\<close>

definition message_S1 :: "byte list" where
  "message_S1 = concat (map HexToHash32 [''0x1'', ''0x2'', ''0x4'', ''0x5''])"

section \<open>Properties\<close>

subsection \<open>Cleanup and the unsigned epoch difference\<close>

lemma epochIsOutdated_unat:
  "epochIsOutdated tb epoch \<longleftrightarrow>
     (if epoch \<le> currentEpoch tb then 1000 < unat (currentEpoch tb) - unat epoch
      else unat epoch - unat (currentEpoch tb) < 2 ^ 64 - 1000)"
  unfolding epochIsOutdated_def cleanupEpochs_def
  by (auto simp: word_less_nat_alt word_le_nat_alt unat_sub_if')

text \<open>
  C10, as amended. The difference \<open>currentEpoch - epoch\<close> wraps around, so a stored beacon
  whose epoch lies after the current epoch is outdated, and \<open>cleanup\<close> deletes it, exactly
  when the epoch is fewer than \<open>2^64 - 1000\<close> epochs ahead; a beacon in the last 1000
  epochs before the wrap-around point is kept.
\<close>

theorem future_epoch_outdated:
  "currentEpoch tb < epoch \<Longrightarrow>
     (epochIsOutdated tb epoch \<longleftrightarrow> unat epoch - unat (currentEpoch tb) < 2 ^ 64 - 1000) \<and>
     beacons (cleanup tb) epoch =
       (if unat epoch - unat (currentEpoch tb) < 2 ^ 64 - 1000 then None else beacons tb epoch)"
  by (simp add: epochIsOutdated_unat cleanup_def word_less_nat_alt word_le_nat_alt)

text \<open>At epoch 5 the beacon stored for epoch 6 is outdated and deleted.\<close>

theorem future_epoch_outdated_witness:
  "currentEpoch (tb0\<lparr>beacons := [6 \<mapsto> genesisBeacon]\<rparr>) < 6 \<and>
   epochIsOutdated (tb0\<lparr>beacons := [6 \<mapsto> genesisBeacon]\<rparr>) 6 \<and>
   beacons (cleanup (tb0\<lparr>beacons := [6 \<mapsto> genesisBeacon]\<rparr>)) 6 = None"
proof -
  have lt: "currentEpoch (tb0\<lparr>beacons := [6 \<mapsto> genesisBeacon]\<rparr>) < 6"
    by (simp add: tb0_def)
  show ?thesis
    using lt future_epoch_outdated [OF lt] by (simp add: tb0_def)
qed

text \<open>
  C10 as stated fails: at epoch 0 a beacon stored for epoch \<open>2^64 - 1\<close> lies after the
  current epoch, yet \<open>0 - (2^64 - 1) = 1\<close> is not above 1000, and the beacon is kept.
\<close>

theorem future_epoch_outdated_counterexample:
  "\<not> (\<forall>tb epoch. beacons tb epoch \<noteq> None \<and> currentEpoch tb < epoch \<longrightarrow>
         epochIsOutdated tb epoch \<and> beacons (cleanup tb) epoch = None)"
proof
  assume a: "\<forall>tb epoch. beacons tb epoch \<noteq> None \<and> currentEpoch tb < epoch \<longrightarrow>
         epochIsOutdated tb epoch \<and> beacons (cleanup tb) epoch = None"
  let ?tb = "tb0\<lparr>currentEpoch := 0, beacons := [- 1 \<mapsto> genesisBeacon]\<rparr>"
  have "beacons ?tb (- 1) \<noteq> None \<and> currentEpoch ?tb < - 1"
    by (simp add: tb0_def word_gt_0)
  with a have "epochIsOutdated ?tb (- 1)" by blast
  then show False by (simp add: epochIsOutdated_def cleanupEpochs_def tb0_def)
qed

subsection \<open>GetBeacon and the genesis beacons\<close>

lemma genesisBeacon_zero: "genesisBeacon = replicate 32 0"
  by (simp add: genesisBeacon_def HexToHash32_def BytesToHash_def FromHex_def fromHexChar_def
      eval_nat_numeral)

lemma GetBeacon_loop_miss:
  "beacons tb (epochID - 1) = None \<Longrightarrow>
     GetBeacon_loop tb epochID i slept = (replicate 32 0, False, slept + (50 - i))"
proof (induction "50 - i" arbitrary: i slept)
  case 0
  then show ?case by (subst GetBeacon_loop.simps) simp
next
  case (Suc n)
  from Suc.hyps(2) have lt: "i < 50" and n: "n = 50 - (i + 1)" by simp_all
  have "GetBeacon_loop tb epochID i slept = GetBeacon_loop tb epochID (i + 1) (slept + 1)"
    using lt Suc.prems by (subst GetBeacon_loop.simps) simp
  also have "\<dots> = (replicate 32 0, False, (slept + 1) + (50 - (i + 1)))"
    using Suc.hyps(1) [OF n Suc.prems] .
  finally show ?case using lt by simp
qed

lemma GetBeacon_loop_hit:
  "beacons tb (epochID - 1) = Some b \<Longrightarrow> i < 50 \<Longrightarrow>
     GetBeacon_loop tb epochID i slept = (b, True, slept)"
  by (subst GetBeacon_loop.simps) simp

text \<open>
  C9, as amended. For an epoch with no entry in the beacon store whose predecessor is not
  a genesis epoch, \<open>GetBeacon\<close> reads the in-memory beacon of the predecessor. When it is
  there, it is the result, without a wait; when it is absent, the 50 reads take 50 seconds
  and the result is the all-zero hash. With a beacon store the result is written under the
  epoch: when the write succeeds the result comes with no error, when it fails
  \<open>GetBeacon\<close> returns the wrapped error of the write. It never returns
  \<open>ErrBeaconNotCalculated\<close>.
\<close>

theorem GetBeacon_previous_epoch:
  assumes nodb: "\<forall>db. tortoiseBeaconDB tb = Some db \<longrightarrow> store db epochID = None"
    and notgen: "\<not> IsGenesis env (epochID - 1)"
  shows "GetBeacon env tb epochID =
     (let beacon = (case beacons tb (epochID - 1) of None \<Rightarrow> replicate 32 0 | Some b \<Rightarrow> b);
          slept = (case beacons tb (epochID - 1) of None \<Rightarrow> 50 | Some b \<Rightarrow> 0)
      in case tortoiseBeaconDB tb of
           None \<Rightarrow> (Inr beacon, tb, slept)
         | Some db \<Rightarrow>
             (case put_error db of
                None \<Rightarrow>
                  (Inr beacon,
                   tb\<lparr>tortoiseBeaconDB := Some (db\<lparr>store := (store db)(epochID \<mapsto> beacon)\<rparr>)\<rparr>,
                   slept)
              | Some err \<Rightarrow>
                  (Inl (Wrap ''update beacon in DB'' (Wrap ''failed to add tortoise beacon'' err)),
                   tb, slept)))
     \<and> fst (GetBeacon env tb epochID) \<noteq> Inl ErrBeaconNotCalculated"
  using assms
  by (auto simp: GetBeacon_def GetTortoiseBeacon_def SetTortoiseBeacon_def Let_def
      GetBeacon_loop_miss GetBeacon_loop_hit split: option.splits)

text \<open>
  Epoch 5 with an empty beacon store and no beacon of epoch 4: after 50 seconds the zero
  hash is returned and written to the store under epoch 5.
\<close>

theorem GetBeacon_previous_epoch_witness:
  "tortoiseBeaconDB (tb0\<lparr>tortoiseBeaconDB := Some db_ok\<rparr>) = Some db_ok \<and> store db_ok 5 = None \<and>
   \<not> IsGenesis env0 (5 - 1) \<and>
   GetBeacon env0 (tb0\<lparr>tortoiseBeaconDB := Some db_ok\<rparr>) 5 =
     (Inr (replicate 32 0),
      tb0\<lparr>tortoiseBeaconDB := Some (db_ok\<lparr>store := [5 \<mapsto> replicate 32 0]\<rparr>)\<rparr>, 50)"
proof -
  have h1: "\<forall>db. tortoiseBeaconDB (tb0\<lparr>tortoiseBeaconDB := Some db_ok\<rparr>) = Some db \<longrightarrow> store db 5 = None"
    by (simp add: db_ok_def)
  have h2: "\<not> IsGenesis env0 (5 - 1)"
    by (simp add: env0_def)
  show ?thesis
    using h1 h2 GetBeacon_previous_epoch [OF h1 h2]
    by (simp add: tb0_def db_ok_def Let_def)
qed

text \<open>
  C9 as stated fails where the write to a configured beacon store fails: the result is
  the error of the write, not the zero hash with a nil error.
\<close>

theorem GetBeacon_previous_epoch_counterexample:
  "\<not> (\<forall>env tb e.
         (\<forall>db. tortoiseBeaconDB tb = Some db \<longrightarrow> store db e = None) \<and>
         \<not> IsGenesis env (e - 1) \<and> beacons tb (e - 1) = None \<longrightarrow>
         fst (GetBeacon env tb e) = Inr (replicate 32 0))"
proof
  assume a: "\<forall>env tb e.
         (\<forall>db. tortoiseBeaconDB tb = Some db \<longrightarrow> store db e = None) \<and>
         \<not> IsGenesis env (e - 1) \<and> beacons tb (e - 1) = None \<longrightarrow>
         fst (GetBeacon env tb e) = Inr (replicate 32 0)"
  let ?tb = "tb0\<lparr>tortoiseBeaconDB := Some db_failing\<rparr>"
  have "(\<forall>db. tortoiseBeaconDB ?tb = Some db \<longrightarrow> store db 5 = None) \<and>
         \<not> IsGenesis env0 (5 - 1) \<and> beacons ?tb (5 - 1) = None"
    by (simp add: tb0_def db_failing_def env0_def)
  with a have "fst (GetBeacon env0 ?tb 5) = Inr (replicate 32 0)" by blast
  moreover have "fst (GetBeacon env0 ?tb 5) =
      Inl (Wrap ''update beacon in DB'' (Wrap ''failed to add tortoise beacon'' (External ''put failed'')))"
    by (simp add: GetBeacon_def GetTortoiseBeacon_def SetTortoiseBeacon_def GetBeacon_loop_miss
        tb0_def db_failing_def env0_def)
  ultimately show False by simp
qed

lemma unat_succ_below:
  fixes e g :: "64 word"
  assumes "e < g"
  shows "unat (e + 1) = Suc (unat e)"
  using assms by unat_arith

lemma initGenesisBeacons_loop_segment:
  fixes e g :: EpochID
  assumes stop: "\<not> isGen g" and gen: "\<forall>x<g. isGen x"
  shows "e \<le> g \<Longrightarrow>
     initGenesisBeacons_loop isGen e bs =
       Some (\<lambda>x. if e \<le> x \<and> x < g then Some genesisBeacon else bs x)"
proof (induction "unat g - unat e" arbitrary: e bs)
  case 0
  then have "e = g" by (simp add: word_le_nat_alt word_unat_eq_iff)
  then show ?case using stop
    by (subst initGenesisBeacons_loop.simps) (auto simp: fun_eq_iff)
next
  case (Suc n)
  then have lt: "e < g" by (simp add: word_less_nat_alt)
  have s: "unat (e + 1) = Suc (unat e)" using lt by (rule unat_succ_below)
  have le: "e + 1 \<le> g" using lt s by (simp add: word_le_nat_alt word_less_nat_alt)
  have n: "n = unat g - unat (e + 1)" using Suc.hyps(2) s by simp
  have "initGenesisBeacons_loop isGen e bs =
        initGenesisBeacons_loop isGen (e + 1) (bs(e \<mapsto> genesisBeacon))"
    using gen lt by (subst initGenesisBeacons_loop.simps) simp
  also have "\<dots> = Some (\<lambda>x. if e + 1 \<le> x \<and> x < g then Some genesisBeacon
                           else (bs(e \<mapsto> genesisBeacon)) x)"
    using Suc.hyps(1) [OF n le] .
  also have "(\<lambda>x. if e + 1 \<le> x \<and> x < g then Some genesisBeacon
                           else (bs(e \<mapsto> genesisBeacon)) x) =
     (\<lambda>x. if e \<le> x \<and> x < g then Some genesisBeacon else bs x)"
    using lt s by (auto simp: fun_eq_iff word_le_nat_alt word_less_nat_alt word_unat_eq_iff)
  finally show ?case .
qed

text \<open>
  What \<open>GetBeacon\<close> and \<open>initGenesisBeacons\<close> do where the genesis test is reached: for
  an epoch with no entry in the beacon store whose predecessor \<open>epochID - 1\<close> (in
  wrapping arithmetic) is a genesis epoch, \<open>GetBeacon\<close> returns 32 zero bytes with no
  error and no wait; and when \<open>g\<close> is the first epoch that is not a genesis epoch,
  \<open>initGenesisBeacons\<close> returns and has stored the all-zero beacon for every epoch
  below \<open>g\<close>.
\<close>

lemma genesis_beacon:
  "((\<forall>db. tortoiseBeaconDB tb = Some db \<longrightarrow> store db epochID = None) \<longrightarrow>
      IsGenesis env (epochID - 1) \<longrightarrow>
      GetBeacon env tb epochID = (Inr (replicate 32 0), tb, 0)) \<and>
   (\<not> IsGenesis env g \<longrightarrow> (\<forall>e<g. IsGenesis env e) \<longrightarrow>
      initGenesisBeacons env tb =
        Some (tb\<lparr>beacons := (\<lambda>e. if e < g then Some (replicate 32 0) else beacons tb e)\<rparr>))"
proof (intro conjI impI)
  assume "\<forall>db. tortoiseBeaconDB tb = Some db \<longrightarrow> store db epochID = None"
    and "IsGenesis env (epochID - 1)"
  then show "GetBeacon env tb epochID = (Inr (replicate 32 0), tb, 0)"
    by (auto simp: GetBeacon_def GetTortoiseBeacon_def genesisBeacon_zero split: option.splits)
next
  assume "\<not> IsGenesis env g" and "\<forall>e<g. IsGenesis env e"
  then have "initGenesisBeacons_loop (IsGenesis env) 0 (beacons tb) =
      Some (\<lambda>x. if 0 \<le> x \<and> x < g then Some genesisBeacon else beacons tb x)"
    by (intro initGenesisBeacons_loop_segment) simp_all
  then show "initGenesisBeacons env tb =
        Some (tb\<lparr>beacons := (\<lambda>e. if e < g then Some (replicate 32 0) else beacons tb e)\<rparr>)"
    unfolding genesisBeacon_zero by (simp add: initGenesisBeacons_def)
qed

lemma initGenesisBeacons_env0: "initGenesisBeacons env0 tb0 = Some tb_genesis"
proof -
  have h3: "\<not> IsGenesis env0 2" and h4: "\<forall>e<2. IsGenesis env0 e"
    by (simp_all add: env0_def)
  show ?thesis
    using h3 h4 genesis_beacon [of tb0 1 env0 2]
    by (simp add: tb_genesis_def tb0_def cong: if_cong)
qed

lemma GetBeacon_genesis_epoch_one:
  "GetBeacon env0 tb_genesis 1 = (Inr (replicate 32 0), tb_genesis, 0)"
proof -
  have h1: "\<forall>db. tortoiseBeaconDB tb_genesis = Some db \<longrightarrow> store db 1 = None"
    by (simp add: tb_genesis_def tb0_def)
  have h2: "IsGenesis env0 (1 - 1)"
    by (simp add: env0_def)
  show ?thesis
    using h1 h2 genesis_beacon [of tb_genesis 1 env0 2] by simp
qed

text \<open>
  C5. With the genesis epochs 0 and 1 and no beacon store, \<open>initGenesisBeacons\<close> stores
  the zero beacon for epochs 0 and 1. \<open>GetBeacon\<close> of the genesis epoch 1 then returns
  32 zero bytes at once. \<open>GetBeacon\<close> of the genesis epoch 0 does not: \<open>0 - 1\<close> wraps to
  the last epoch, which is no genesis epoch and has no beacon, so the 50 reads all miss
  and the zero bytes come after 50 seconds.
\<close>

theorem GetBeacon_genesis_epoch_zero:
  "IsGenesis env0 0 \<and>
   initGenesisBeacons env0 tb0 = Some tb_genesis \<and>
   beacons tb_genesis 0 = Some (replicate 32 0) \<and>
   GetBeacon env0 tb_genesis 1 = (Inr (replicate 32 0), tb_genesis, 0) \<and>
   GetBeacon env0 tb_genesis 0 = (Inr (replicate 32 0), tb_genesis, 50)"
proof -
  have g: "IsGenesis env0 0" by (simp add: env0_def)
  have b: "beacons tb_genesis 0 = Some (replicate 32 0)" by (simp add: tb_genesis_def)
  have miss: "beacons tb_genesis (0 - 1) = None" by (simp add: tb_genesis_def)
  have notgen: "\<not> IsGenesis env0 (0 - 1)" by (simp add: env0_def)
  have nodb: "tortoiseBeaconDB tb_genesis = None" by (simp add: tb_genesis_def tb0_def)
  have z: "GetBeacon env0 tb_genesis 0 = (Inr (replicate 32 0), tb_genesis, 50)"
    using notgen by (simp add: GetBeacon_def nodb GetBeacon_loop_miss [OF miss])
  show ?thesis
    using g b z initGenesisBeacons_env0 GetBeacon_genesis_epoch_one by simp
qed

subsection \<open>The scheduler when the epoch weight is unavailable\<close>

text \<open>
  C8. For an epoch that is not a genesis epoch whose weight lookup fails, the proposal
  phase returns an error: the lookup's error wrapped as \<open>get epoch weight\<close> (or, when the
  proposal could not even be serialized, that earlier error, the lookup then not made).
  \<open>handleEpoch\<close> logs the error and returns: the proposal phase is the only phase run,
  neither the consensus phase nor the beacon calculation follows, and the node is as it
  was, so no beacon is recorded for the epoch.
\<close>

theorem weight_unavailable_aborts:
  assumes nongen: "\<not> IsGenesis env epoch"
    and fails: "GetEpochWeight env epoch = Inl err"
  shows "runProposalPhase env tb epoch =
           Inl (case calcProposal env epoch of
                  Inl e \<Rightarrow> Wrap ''calculate signed proposal'' (Wrap ''calculate proposal'' e)
                | Inr p \<Rightarrow> Wrap ''get epoch weight'' err) \<and>
         handleEpoch env tb epoch =
           (tb, [ProposalPhase],
            [(''Failed to send proposal'',
              case calcProposal env epoch of
                Inl e \<Rightarrow> Wrap ''calculate signed proposal'' (Wrap ''calculate proposal'' e)
              | Inr p \<Rightarrow> Wrap ''get epoch weight'' err)]) \<and>
         beacons (fst (handleEpoch env tb epoch)) = beacons tb"
  using assms
  by (simp add: handleEpoch_def runProposalPhase_def calcProposalSignature_def split: sum.splits)

text \<open>Epoch 5 with a failing weight lookup: the error of the lookup is logged, wrapped.\<close>

theorem weight_unavailable_aborts_witness:
  "\<not> IsGenesis env_noweight 5 \<and>
   GetEpochWeight env_noweight 5 = Inl (External ''no weight'') \<and>
   runProposalPhase env_noweight tb0 5 = Inl (Wrap ''get epoch weight'' (External ''no weight'')) \<and>
   handleEpoch env_noweight tb0 5 =
     (tb0, [ProposalPhase],
      [(''Failed to send proposal'', Wrap ''get epoch weight'' (External ''no weight''))])"
proof -
  have h1: "\<not> IsGenesis env_noweight 5"
    by (simp add: env_noweight_def env0_def)
  have h2: "GetEpochWeight env_noweight 5 = Inl (External ''no weight'')"
    by (simp add: env_noweight_def)
  have h3: "calcProposal env_noweight 5 = Inr []"
    by (simp add: env_noweight_def env0_def)
  show ?thesis
    using h1 h2 weight_unavailable_aborts [OF h1 h2, of tb0] by (simp add: h3)
qed

subsection \<open>GetBeacon of the earlier revision\<close>

text \<open>
  C7. \<open>GetBeacon\<close> of tortoisebeacon.go does not wait and does not fail: for epoch 5,
  whatever the state of the beacons, it returns the 32 bytes that hold the epoch number,
  lowest byte first.
\<close>

theorem GetBeacon_mock_value:
  "GetBeacon_mock 5 = Some (5 # replicate 31 0)"
  by code_simp

subsection \<open>Margins of the first round\<close>

lemma margin_addToMargin:
  "margin (addToMargin w ps m) p = margin m p + (if p \<in> ps then w else 0)"
  by (simp add: addToMargin_def margin_def)

lemma dom_addToMargin: "dom (addToMargin w ps m) = dom m \<union> ps"
  by (auto simp: addToMargin_def dom_def)

lemma margin_tallyVotes:
  "margin (tallyVotes w vs m) p =
     margin m p + (\<Sum>(pk, v) \<leftarrow> vs. (if p \<in> ValidVotes v then w pk else 0)
                                  - (if p \<in> InvalidVotes v then w pk else 0))"
  by (induction vs arbitrary: m) (auto simp: margin_addToMargin)

lemma dom_tallyVotes:
  "dom (tallyVotes w vs m) = dom m \<union> (\<Union>(pk, v) \<in> set vs. ValidVotes v \<union> InvalidVotes v)"
proof (induction vs arbitrary: m)
  case Nil
  show ?case by simp
next
  case (Cons a vs)
  obtain pk v where a: "a = (pk, v)" by (cases a)
  have "dom (tallyVotes w (a # vs) m) =
      (dom m \<union> ValidVotes v \<union> InvalidVotes v)
        \<union> (\<Union>(pk, v) \<in> set vs. ValidVotes v \<union> InvalidVotes v)"
    by (simp only: a tallyVotes.simps Cons.IH dom_addToMargin)
  then show ?case by (simp add: a Un_assoc)
qed

text \<open>
  C3. After the first-round votes of an epoch are tallied, the margin of a proposal is the
  sum over the voters of the voter's weight where the proposal is among its valid votes,
  minus the weight where it is among its invalid votes; the proposals with a margin are
  the ones some voter voted on. With the two voters of S4 and the weight 1 that
  \<open>voteWeight\<close> gives every voter, the margins are 2, 1, -1, 1, 0 and -2.
\<close>

theorem firstRoundVotes_margin:
  "margin (firstRoundVotes w incomingVotes epoch) p =
     (\<Sum>(pk, v) \<leftarrow> incomingVotes (epoch, firstRound).
         (if p \<in> ValidVotes v then w pk else 0) - (if p \<in> InvalidVotes v then w pk else 0)) \<and>
   dom (firstRoundVotes w incomingVotes epoch) =
     (\<Union>(pk, v) \<in> set (incomingVotes (epoch, firstRound)). ValidVotes v \<union> InvalidVotes v) \<and>
   firstRoundVotes (\<lambda>pk. case voteWeight pk 5 of Inl e \<Rightarrow> 0 | Inr x \<Rightarrow> uint x)
       (\<lambda>er. if er = (5, firstRound) then votes_S4 else []) 5 =
     [''0x1'' \<mapsto> 2, ''0x2'' \<mapsto> 1, ''0x3'' \<mapsto> - 1, ''0x4'' \<mapsto> 1, ''0x5'' \<mapsto> 0, ''0x6'' \<mapsto> - 2]"
proof (intro conjI)
  show "margin (firstRoundVotes w incomingVotes epoch) p =
     (\<Sum>(pk, v) \<leftarrow> incomingVotes (epoch, firstRound).
         (if p \<in> ValidVotes v then w pk else 0) - (if p \<in> InvalidVotes v then w pk else 0))"
    by (simp add: firstRoundVotes_def margin_tallyVotes) (simp add: margin_def)
  show "dom (firstRoundVotes w incomingVotes epoch) =
     (\<Union>(pk, v) \<in> set (incomingVotes (epoch, firstRound)). ValidVotes v \<union> InvalidVotes v)"
    by (simp add: firstRoundVotes_def dom_tallyVotes)
  show "firstRoundVotes (\<lambda>pk. case voteWeight pk 5 of Inl e \<Rightarrow> 0 | Inr x \<Rightarrow> uint x)
       (\<lambda>er. if er = (5, firstRound) then votes_S4 else []) 5 =
     [''0x1'' \<mapsto> 2, ''0x2'' \<mapsto> 1, ''0x3'' \<mapsto> - 1, ''0x4'' \<mapsto> 1, ''0x5'' \<mapsto> 0, ''0x6'' \<mapsto> - 2]"
    by (auto simp: firstRoundVotes_def votes_S4_def voteWeight_def addToMargin_def margin_def
        fun_eq_iff)
qed

text \<open>The margin of \<open>0x6\<close>, which both voters of S4 vote invalid, is -2.\<close>

theorem firstRoundVotes_margin_witness:
  "margin (firstRoundVotes (\<lambda>pk. 1) (\<lambda>er. votes_S4) 5) ''0x6'' = - 2"
  using firstRoundVotes_margin [of "\<lambda>pk. 1" "\<lambda>er. votes_S4" 5 "''0x6''"]
  by (simp add: votes_S4_def)

subsection \<open>The adoption rule\<close>

text \<open>What \<open>adopt\<close> answers on each side of the threshold.\<close>

lemma adopt_decided_valid: "\<bar>m\<bar> \<ge> t \<Longrightarrow> m > 0 \<Longrightarrow> adopt t c m = AdoptValid"
  by (simp add: adopt_def)

lemma adopt_decided_invalid: "\<bar>m\<bar> \<ge> t \<Longrightarrow> m < 0 \<Longrightarrow> adopt t c m = AdoptInvalid"
  by (simp add: adopt_def)

lemma adopt_undecided:
  "\<bar>m\<bar> < t \<or> m = 0 \<Longrightarrow> adopt t c m = (if c then AdoptValid else AdoptInvalid)"
  by (auto simp: adopt_def)

text \<open>
  C4, as amended. For the own votes of the next round: a proposal of the margin map whose
  margin is at least the voting threshold in absolute value is among the valid votes,
  and not the invalid ones, when the margin is positive, and among the invalid votes,
  and not the valid ones, when it is negative; every other proposal (its margin below
  the threshold in absolute value, or 0) is valid when the weak coin of the round is
  true and invalid when it is false. The two sets are disjoint and together are the
  proposals of the margin map.
\<close>

theorem adoption_rule:
  assumes p: "p \<in> dom votesMargin"
  shows "(let own = calcOwnCurrentRoundVotes votingThreshold weakCoin epoch round votesMargin;
              m = margin votesMargin p
          in (\<bar>m\<bar> \<ge> votingThreshold \<and> m > 0 \<longrightarrow> p \<in> ValidVotes own \<and> p \<notin> InvalidVotes own) \<and>
             (\<bar>m\<bar> \<ge> votingThreshold \<and> m < 0 \<longrightarrow> p \<in> InvalidVotes own \<and> p \<notin> ValidVotes own) \<and>
             (\<bar>m\<bar> < votingThreshold \<or> m = 0 \<longrightarrow>
                (if weakCoin epoch round then p \<in> ValidVotes own \<and> p \<notin> InvalidVotes own
                 else p \<in> InvalidVotes own \<and> p \<notin> ValidVotes own)) \<and>
             ValidVotes own \<union> InvalidVotes own = dom votesMargin \<and>
             ValidVotes own \<inter> InvalidVotes own = {})"
proof -
  let ?a = "\<lambda>q. adopt votingThreshold (weakCoin epoch round) (margin votesMargin q)"
  let ?own = "calcOwnCurrentRoundVotes votingThreshold weakCoin epoch round votesMargin"
  let ?m = "margin votesMargin p"
  have V: "ValidVotes ?own = {q \<in> dom votesMargin. ?a q = AdoptValid}"
    and I: "InvalidVotes ?own = {q \<in> dom votesMargin. ?a q = AdoptInvalid}"
    by (simp_all add: calcOwnCurrentRoundVotes_def)
  have c1: "\<bar>?m\<bar> \<ge> votingThreshold \<and> ?m > 0 \<longrightarrow> p \<in> ValidVotes ?own \<and> p \<notin> InvalidVotes ?own"
  proof
    assume "\<bar>?m\<bar> \<ge> votingThreshold \<and> ?m > 0"
    then have "?a p = AdoptValid" by (auto simp: adopt_def)
    then show "p \<in> ValidVotes ?own \<and> p \<notin> InvalidVotes ?own"
      using p by (simp add: V I)
  qed
  have c2: "\<bar>?m\<bar> \<ge> votingThreshold \<and> ?m < 0 \<longrightarrow> p \<in> InvalidVotes ?own \<and> p \<notin> ValidVotes ?own"
  proof
    assume "\<bar>?m\<bar> \<ge> votingThreshold \<and> ?m < 0"
    then have "?a p = AdoptInvalid" by (auto simp: adopt_def)
    then show "p \<in> InvalidVotes ?own \<and> p \<notin> ValidVotes ?own"
      using p by (simp add: V I)
  qed
  have c3: "\<bar>?m\<bar> < votingThreshold \<or> ?m = 0 \<longrightarrow>
                (if weakCoin epoch round then p \<in> ValidVotes ?own \<and> p \<notin> InvalidVotes ?own
                 else p \<in> InvalidVotes ?own \<and> p \<notin> ValidVotes ?own)"
  proof
    assume u: "\<bar>?m\<bar> < votingThreshold \<or> ?m = 0"
    show "if weakCoin epoch round then p \<in> ValidVotes ?own \<and> p \<notin> InvalidVotes ?own
                 else p \<in> InvalidVotes ?own \<and> p \<notin> ValidVotes ?own"
      using p by (simp add: V I adopt_undecided [OF u])
  qed
  have c4: "ValidVotes ?own \<union> InvalidVotes ?own = dom votesMargin"
    unfolding V I using adoption.exhaust by blast
  have c5: "ValidVotes ?own \<inter> InvalidVotes ?own = {}"
    unfolding V I by auto
  show ?thesis
    unfolding Let_def using c1 c2 c3 c4 c5 by blast
qed

text \<open>
  The own votes over a margin map whose proposals are listed: each listed proposal is
  adopted by its own margin.
\<close>

lemma own_votes_of_keys:
  assumes "dom m = set ps"
  shows "calcOwnCurrentRoundVotes votingThreshold weakCoin epoch round m =
     \<lparr>ValidVotes =
        set (filter (\<lambda>p. adopt votingThreshold (weakCoin epoch round) (margin m p) = AdoptValid) ps),
      InvalidVotes =
        set (filter (\<lambda>p. adopt votingThreshold (weakCoin epoch round) (margin m p) = AdoptInvalid) ps)\<rparr>"
  using assms by (auto simp: calcOwnCurrentRoundVotes_def)

lemma margins_S4_dom:
  "dom margins_S4 = set [''0x1'', ''0x2'', ''0x3'', ''0x4'', ''0x5'', ''0x6'']"
  by (simp add: margins_S4_def insert_commute)

lemma margins_S4_values:
  "margin margins_S4 ''0x1'' = 2" "margin margins_S4 ''0x2'' = 1" "margin margins_S4 ''0x3'' = - 1"
  "margin margins_S4 ''0x4'' = 1" "margin margins_S4 ''0x5'' = 0" "margin margins_S4 ''0x6'' = - 2"
  by (simp_all add: margins_S4_def margin_def)

lemma margins_firstRoundTest_dom:
  "dom margins_firstRoundTest = set [''0x1'', ''0x2'', ''0x3'', ''0x4'', ''0x5'', ''0x6'']"
  by (simp add: margins_firstRoundTest_def insert_commute)

lemma margins_firstRoundTest_values:
  "margin margins_firstRoundTest ''0x1'' = 2" "margin margins_firstRoundTest ''0x2'' = 1"
  "margin margins_firstRoundTest ''0x3'' = - 1" "margin margins_firstRoundTest ''0x4'' = 1"
  "margin margins_firstRoundTest ''0x5'' = 1" "margin margins_firstRoundTest ''0x6'' = - 2"
  by (simp_all add: margins_firstRoundTest_def margin_def)

lemma margins_test_dom: "dom margins_test = set [''0x1'', ''0x2'', ''0x3'']"
  by (simp add: margins_test_def insert_commute)

lemma margins_test_values:
  "margin margins_test ''0x1'' = 6" "margin margins_test ''0x2'' = - 9"
  "margin margins_test ''0x3'' = 1"
  by (simp_all add: margins_test_def margin_def)

lemma adoption_S5_false:
  "calcOwnCurrentRoundVotes 2 (\<lambda>e r. False) 5 2 margins_S4 =
     \<lparr>ValidVotes = {''0x1''}, InvalidVotes = {''0x2'', ''0x3'', ''0x4'', ''0x5'', ''0x6''}\<rparr>"
  by (simp add: own_votes_of_keys [OF margins_S4_dom] margins_S4_values adopt_def)

lemma adoption_S5_true:
  "calcOwnCurrentRoundVotes 2 (\<lambda>e r. True) 5 2 margins_S4 =
     \<lparr>ValidVotes = {''0x1'', ''0x2'', ''0x3'', ''0x4'', ''0x5''}, InvalidVotes = {''0x6''}\<rparr>"
  by (simp add: own_votes_of_keys [OF margins_S4_dom] margins_S4_values adopt_def)

lemma adoption_firstRoundTest_false:
  "calcOwnCurrentRoundVotes 2 (\<lambda>e r. False) 5 2 margins_firstRoundTest =
     \<lparr>ValidVotes = {''0x1''}, InvalidVotes = {''0x2'', ''0x3'', ''0x4'', ''0x5'', ''0x6''}\<rparr>"
  by (simp add: own_votes_of_keys [OF margins_firstRoundTest_dom] margins_firstRoundTest_values
      adopt_def)

lemma adoption_firstRoundTest_true:
  "calcOwnCurrentRoundVotes 2 (\<lambda>e r. True) 5 2 margins_firstRoundTest =
     \<lparr>ValidVotes = {''0x1'', ''0x2'', ''0x3'', ''0x4'', ''0x5''}, InvalidVotes = {''0x6''}\<rparr>"
  by (simp add: own_votes_of_keys [OF margins_firstRoundTest_dom] margins_firstRoundTest_values
      adopt_def)

lemma adoption_currentRoundTest_true:
  "calcOwnCurrentRoundVotes 3 (\<lambda>e r. True) 5 5 margins_test =
     \<lparr>ValidVotes = {''0x1'', ''0x3''}, InvalidVotes = {''0x2''}\<rparr>"
  by (simp add: own_votes_of_keys [OF margins_test_dom] margins_test_values adopt_def)

lemma adoption_currentRoundTest_false:
  "calcOwnCurrentRoundVotes 3 (\<lambda>e r. False) 5 5 margins_test =
     \<lparr>ValidVotes = {''0x1''}, InvalidVotes = {''0x2'', ''0x3''}\<rparr>"
  by (simp add: own_votes_of_keys [OF margins_test_dom] margins_test_values adopt_def)

text \<open>
  S5: at threshold 2 on the margins of S4 the margin 2 of \<open>0x1\<close> is decided valid and
  the margin -2 of \<open>0x6\<close> decided invalid, whatever the coin, and the other proposals,
  \<open>0x5\<close> with margin 0 among them, follow the coin. The votes of
  \<open>TestTortoiseBeacon_calcOwnFirstRoundVotes\<close> at threshold 2 and the margins 6, -9 and 1
  of \<open>TestTortoiseBeacon_calcOwnCurrentRoundVotes\<close> at threshold 3 give what the tests
  expect.
\<close>

theorem adoption_rule_witness:
  "''0x1'' \<in> dom margins_S4 \<and> margin margins_S4 ''0x1'' = 2 \<and>
   ''0x1'' \<in> ValidVotes (calcOwnCurrentRoundVotes 2 (\<lambda>e r. False) 5 2 margins_S4) \<and>
   ''0x1'' \<notin> InvalidVotes (calcOwnCurrentRoundVotes 2 (\<lambda>e r. False) 5 2 margins_S4) \<and>
   calcOwnCurrentRoundVotes 2 (\<lambda>e r. False) 5 2 margins_S4 =
     \<lparr>ValidVotes = {''0x1''}, InvalidVotes = {''0x2'', ''0x3'', ''0x4'', ''0x5'', ''0x6''}\<rparr> \<and>
   calcOwnCurrentRoundVotes 2 (\<lambda>e r. True) 5 2 margins_S4 =
     \<lparr>ValidVotes = {''0x1'', ''0x2'', ''0x3'', ''0x4'', ''0x5''}, InvalidVotes = {''0x6''}\<rparr> \<and>
   calcOwnCurrentRoundVotes 2 (\<lambda>e r. False) 5 2 margins_firstRoundTest =
     \<lparr>ValidVotes = {''0x1''}, InvalidVotes = {''0x2'', ''0x3'', ''0x4'', ''0x5'', ''0x6''}\<rparr> \<and>
   calcOwnCurrentRoundVotes 2 (\<lambda>e r. True) 5 2 margins_firstRoundTest =
     \<lparr>ValidVotes = {''0x1'', ''0x2'', ''0x3'', ''0x4'', ''0x5''}, InvalidVotes = {''0x6''}\<rparr> \<and>
   calcOwnCurrentRoundVotes 3 (\<lambda>e r. True) 5 5 margins_test =
     \<lparr>ValidVotes = {''0x1'', ''0x3''}, InvalidVotes = {''0x2''}\<rparr> \<and>
   calcOwnCurrentRoundVotes 3 (\<lambda>e r. False) 5 5 margins_test =
     \<lparr>ValidVotes = {''0x1''}, InvalidVotes = {''0x2'', ''0x3''}\<rparr>"
proof -
  have d: "''0x1'' \<in> dom margins_S4" by (simp add: margins_S4_dom)
  have m: "margin margins_S4 ''0x1'' = 2" by (simp add: margins_S4_values)
  show ?thesis
    using d adoption_rule [OF d, of 2 "\<lambda>e r. False" 5 2]
    by (simp add: m Let_def adoption_S5_false adoption_S5_true adoption_firstRoundTest_false
        adoption_firstRoundTest_true adoption_currentRoundTest_true
        adoption_currentRoundTest_false)
qed

text \<open>
  C4 as stated fails at a margin equal to the threshold: at threshold 2 with the coin
  false, \<open>0x1\<close> with margin 2 is not above the threshold, so the claim sends it to the
  invalid votes with the coin, while it is adopted as valid.
\<close>

theorem adoption_rule_counterexample:
  "\<not> (\<forall>votingThreshold weakCoin epoch round votesMargin p.
         p \<in> dom votesMargin \<and> \<not> \<bar>margin votesMargin p\<bar> > votingThreshold \<and>
         \<not> weakCoin epoch round \<longrightarrow>
         p \<in> InvalidVotes (calcOwnCurrentRoundVotes votingThreshold weakCoin epoch round votesMargin))"
proof
  assume "\<forall>votingThreshold weakCoin epoch round votesMargin p.
         p \<in> dom votesMargin \<and> \<not> \<bar>margin votesMargin p\<bar> > votingThreshold \<and>
         \<not> weakCoin epoch round \<longrightarrow>
         p \<in> InvalidVotes (calcOwnCurrentRoundVotes votingThreshold weakCoin epoch round votesMargin)"
  then have a: "''0x1'' \<in> dom margins_S4 \<and> \<not> \<bar>margin margins_S4 ''0x1''\<bar> > 2 \<and>
         \<not> (\<lambda>e r. False) (5 :: EpochID) (2 :: RoundID) \<longrightarrow>
         ''0x1'' \<in> InvalidVotes (calcOwnCurrentRoundVotes 2 (\<lambda>e r. False) 5 2 margins_S4)"
    by (elim allE)
  have "''0x1'' \<in> dom margins_S4 \<and> \<not> \<bar>margin margins_S4 ''0x1''\<bar> > 2 \<and>
        \<not> (\<lambda>e r. False) (5 :: EpochID) (2 :: RoundID)"
    by (simp add: margins_S4_dom margins_S4_values)
  with a have "''0x1'' \<in> InvalidVotes (calcOwnCurrentRoundVotes 2 (\<lambda>e r. False) 5 2 margins_S4)"
    by (rule mp)
  then show False by (simp add: adoption_S5_false)
qed

subsection \<open>The vote codec\<close>

lemma length_encodeVotes:
  "length (encodeVotes v fr) = (length (firstRoundList fr) + 63) div 64"
  by (simp add: encodeVotes_def Let_def)

lemma window_index:
  fixes q r n :: nat
  shows "r < 64 \<Longrightarrow> (r < min (64 * q + 64) n - 64 * q \<longleftrightarrow> 64 * q + r < n)"
  by (auto simp: min_def)

lemma word_index_bound:
  fixes i n :: nat
  assumes "i < n"
  shows "i div 64 < (n + 63) div 64"
proof -
  obtain m where n: "n = Suc m" using assms by (cases n) auto
  have "i div 64 \<le> m div 64" using assms n by (intro div_le_mono) simp
  moreover have "(n + 63) div 64 = m div 64 + 1"
    using div_add_self2 [of 64 m] by (simp add: n)
  ultimately show ?thesis by simp
qed

lemma bitAt_encodeVotes:
  "bitAt (encodeVotes v fr) i \<longleftrightarrow>
     i < length (firstRoundList fr) \<and> firstRoundList fr ! i \<in> ValidVotes v"
proof -
  define L where "L = firstRoundList fr"
  define n where "n = length L"
  define q where "q = i div 64"
  define r where "r = i mod 64"
  have i: "i = 64 * q + r" and r: "r < 64" by (simp_all add: q_def r_def)
  have win: "r < min (64 * q + 64) n - 64 * q \<longleftrightarrow> i < n"
    using window_index [OF r, of q n] by (simp add: i)
  show ?thesis
  proof (cases "q < (n + 63) div 64")
    case True
    have "bitAt (encodeVotes v fr) i \<longleftrightarrow>
        bit (horner_sum of_bool (2 :: 64 word)
               (map (\<lambda>j. L ! j \<in> ValidVotes v) [64 * q ..< min (64 * q + 64) n])) r"
      using True by (simp add: bitAt_def encodeVotes_def Let_def L_def n_def q_def r_def)
    also have "\<dots> \<longleftrightarrow> i < n \<and> L ! i \<in> ValidVotes v"
    proof (cases "i < n")
      case inside: True
      then have "r < min (64 * q + 64) n - 64 * q" using win by simp
      then show ?thesis
        using inside r by (simp add: bit_horner_sum_bit_word_iff i)
    next
      case outside: False
      then have "\<not> r < min (64 * q + 64) n - 64 * q" using win by simp
      then show ?thesis
        using outside by (simp add: bit_horner_sum_bit_word_iff)
    qed
    finally show ?thesis by (simp add: L_def n_def)
  next
    case False
    then have "\<not> i < n" using word_index_bound [of i n] by (auto simp: q_def)
    then show ?thesis using False
      by (simp add: bitAt_def encodeVotes_def Let_def L_def n_def q_def)
  qed
qed

lemma decode_encode_sets:
  "ValidVotes (decodeVotes (encodeVotes v fr) fr) = set (firstRoundList fr) \<inter> ValidVotes v"
  "InvalidVotes (decodeVotes (encodeVotes v fr) fr) = set (firstRoundList fr) - ValidVotes v"
  by (auto simp: decodeVotes_def Let_def bitAt_encodeVotes in_set_conv_nth)

text \<open>
  C2, as amended. When the current valid and invalid votes are disjoint and together are
  exactly the proposals of the first-round list \<open>L\<close>, decoding the encoded votes against
  \<open>L\<close> gives the votes back; the vector has \<open>|L|\<close> bits rounded up to whole words; for
  \<open>i < |L|\<close> bit \<open>i\<close> is 1 iff \<open>L[i]\<close> is a valid vote and 0 iff it is an invalid vote;
  the bits from \<open>|L|\<close> on are 0.
\<close>

theorem codec_round_trip:
  fixes v :: votesSetPair
  assumes cover: "ValidVotes v \<union> InvalidVotes v = set (firstRoundList fr)"
    and disj: "ValidVotes v \<inter> InvalidVotes v = {}"
  shows "decodeVotes (encodeVotes v fr) fr = v \<and>
         length (encodeVotes v fr) = (length (firstRoundList fr) + 63) div 64 \<and>
         (\<forall>i < length (firstRoundList fr).
            (bitAt (encodeVotes v fr) i \<longleftrightarrow> firstRoundList fr ! i \<in> ValidVotes v) \<and>
            (\<not> bitAt (encodeVotes v fr) i \<longleftrightarrow> firstRoundList fr ! i \<in> InvalidVotes v)) \<and>
         (\<forall>i \<ge> length (firstRoundList fr). \<not> bitAt (encodeVotes v fr) i)"
proof (intro conjI allI impI)
  have V: "ValidVotes (decodeVotes (encodeVotes v fr) fr) = ValidVotes v"
    using cover by (auto simp: decode_encode_sets)
  have I: "InvalidVotes (decodeVotes (encodeVotes v fr) fr) = InvalidVotes v"
    using cover disj by (auto simp: decode_encode_sets)
  show "decodeVotes (encodeVotes v fr) fr = v"
    using V I by (intro votesSetPair.equality) simp_all
  show "length (encodeVotes v fr) = (length (firstRoundList fr) + 63) div 64"
    by (rule length_encodeVotes)
next
  fix i assume i: "i < length (firstRoundList fr)"
  then show "bitAt (encodeVotes v fr) i \<longleftrightarrow> firstRoundList fr ! i \<in> ValidVotes v"
    by (simp add: bitAt_encodeVotes)
  have "firstRoundList fr ! i \<in> ValidVotes v \<union> InvalidVotes v"
    using i cover by simp
  then show "\<not> bitAt (encodeVotes v fr) i \<longleftrightarrow> firstRoundList fr ! i \<in> InvalidVotes v"
    using i disj by (auto simp: bitAt_encodeVotes)
next
  fix i assume "length (firstRoundList fr) \<le> i"
  then show "\<not> bitAt (encodeVotes v fr) i" by (simp add: bitAt_encodeVotes)
qed

lemma encodeVotes_S3: "encodeVotes votes_S3 firstRound_S3 = [5]"
  by (simp add: encodeVotes_def votes_S3_def firstRound_S3_def firstRoundList_def upt_rec)

text \<open>S3: the list \<open>0x1, 0x2, 0x3\<close> with \<open>0x1\<close> and \<open>0x3\<close> valid encodes as the word 5.\<close>

theorem codec_round_trip_witness:
  "ValidVotes votes_S3 \<union> InvalidVotes votes_S3 = set (firstRoundList firstRound_S3) \<and>
   ValidVotes votes_S3 \<inter> InvalidVotes votes_S3 = {} \<and>
   encodeVotes votes_S3 firstRound_S3 = [5] \<and>
   decodeVotes [5] firstRound_S3 = votes_S3"
proof -
  have h1: "ValidVotes votes_S3 \<union> InvalidVotes votes_S3 = set (firstRoundList firstRound_S3)"
    by (auto simp: votes_S3_def firstRound_S3_def firstRoundList_def)
  have h2: "ValidVotes votes_S3 \<inter> InvalidVotes votes_S3 = {}"
    by (simp add: votes_S3_def)
  show ?thesis
    using h1 h2 codec_round_trip [OF h1 h2] by (simp add: encodeVotes_S3)
qed

text \<open>
  C2 as stated fails for votes that leave a proposal of the list out: with the list
  \<open>0x1\<close> and no votes at all, bit 0 is 0 and decoding puts \<open>0x1\<close> among the invalid votes.
\<close>

theorem codec_round_trip_counterexample:
  "\<not> (\<forall>(v :: votesSetPair) fr.
         ValidVotes v \<union> InvalidVotes v \<subseteq> set (firstRoundList fr) \<longrightarrow>
         decodeVotes (encodeVotes v fr) fr = v)"
proof
  assume a: "\<forall>(v :: votesSetPair) fr.
         ValidVotes v \<union> InvalidVotes v \<subseteq> set (firstRoundList fr) \<longrightarrow>
         decodeVotes (encodeVotes v fr) fr = v"
  let ?v = "\<lparr>ValidVotes = {}, InvalidVotes = {}\<rparr> :: votesSetPair"
  let ?fr = "\<lparr>ValidProposals = [''0x1''], PotentiallyValidProposals = []\<rparr>"
  have "ValidVotes ?v \<union> InvalidVotes ?v \<subseteq> set (firstRoundList ?fr)" by simp
  with a have "decodeVotes (encodeVotes ?v ?fr) ?fr = ?v" by blast
  then have "InvalidVotes (decodeVotes (encodeVotes ?v ?fr) ?fr) = {}" by simp
  moreover have "InvalidVotes (decodeVotes (encodeVotes ?v ?fr) ?fr) = {''0x1''}"
    by (simp add: decode_encode_sets firstRoundList_def)
  ultimately show False by simp
qed

subsection \<open>The beacon of an epoch\<close>

text \<open>The digest of S1, block by block.\<close>

lemma words_S1:
  "be_words (sha_pad message_S1) =
     [0, 0, 0, 0, 0, 0, 0, 1, 0, 0, 0, 0, 0, 0, 0, 2,
      0, 0, 0, 0, 0, 0, 0, 4, 0, 0, 0, 0, 0, 0, 0, 5,
      2147483648, 0, 0, 0, 0, 0, 0, 0, 0, 0, 0, 0, 0, 0, 0, 1024]"
  by code_simp

lemma sha_blocks_3:
  "sha_blocks h [a0, a1, a2, a3, a4, a5, a6, a7, a8, a9, a10, a11, a12, a13, a14, a15,
                 b0, b1, b2, b3, b4, b5, b6, b7, b8, b9, b10, b11, b12, b13, b14, b15,
                 c0, c1, c2, c3, c4, c5, c6, c7, c8, c9, c10, c11, c12, c13, c14, c15] =
   compress (compress (compress h
     [a0, a1, a2, a3, a4, a5, a6, a7, a8, a9, a10, a11, a12, a13, a14, a15])
     [b0, b1, b2, b3, b4, b5, b6, b7, b8, b9, b10, b11, b12, b13, b14, b15])
     [c0, c1, c2, c3, c4, c5, c6, c7, c8, c9, c10, c11, c12, c13, c14, c15]"
  by (simp add: sha_blocks.simps)

lemma digest_bytes:
  "concat (map be_bytes32 [3494760698, 4189443002, 4031633809, 1385634653, 3061517116, 2045103193, 4176982074, 2986767352])
   = HexToHash32 ''0xd04dd0faf9b5d3baf04dd99152971b5db67b0b3c79e5cc59f8f7b03ab20673f8''"
  by code_simp

lemma compress_S1_1:
  "compress H256 [0, 0, 0, 0, 0, 0, 0, 1, 0, 0, 0, 0, 0, 0, 0, 2] =
     [3065045739, 1151665140, 2658341023, 540245899, 551147025, 1649729251, 3243217979, 2556847211]"
  by code_simp

lemma compress_S1_2:
  "compress [3065045739, 1151665140, 2658341023, 540245899, 551147025, 1649729251, 3243217979, 2556847211]
      [0, 0, 0, 0, 0, 0, 0, 4, 0, 0, 0, 0, 0, 0, 0, 5] =
     [613387086, 21619132, 3264996954, 3530601572, 3061732160, 768716533, 808699320, 809509799]"
  by code_simp

lemma compress_S1_3:
  "compress [613387086, 21619132, 3264996954, 3530601572, 3061732160, 768716533, 808699320, 809509799]
      [2147483648, 0, 0, 0, 0, 0, 0, 0, 0, 0, 0, 0, 0, 0, 0, 1024] =
     [3494760698, 4189443002, 4031633809, 1385634653, 3061517116, 2045103193, 4176982074, 2986767352]"
  by code_simp

lemma Hash_S1:
  "Hash [''0x1'', ''0x2'', ''0x4'', ''0x5''] =
     HexToHash32 ''0xd04dd0faf9b5d3baf04dd99152971b5db67b0b3c79e5cc59f8f7b03ab20673f8''"
  unfolding Hash_def sha256_def message_S1_def [symmetric] words_S1 sha_blocks_3
    compress_S1_1 compress_S1_2 compress_S1_3
  by (rule digest_bytes)

lemma sort_rangeKeys:
  assumes "visitsEachKeyOnce env ps"
  shows "sort (rangeKeys env ps) = sorted_list_of_set ps"
proof -
  have "sorted_list_of_set (set (rangeKeys env ps)) = sort (remdups (rangeKeys env ps))"
    by (rule sorted_list_of_set_sort_remdups)
  then show ?thesis using assms by (simp add: visitsEachKeyOnce_def distinct_remdups_id)
qed

lemma hash_list_sorted:
  assumes "visitsEachKeyOnce env ps"
  shows "sorted_wrt (<) (sorted_list_of_set ps) \<and> set (sorted_list_of_set ps) = ps"
proof -
  have "finite ps" using assms by (metis visitsEachKeyOnce_def List.finite_set)
  then show ?thesis by (simp add: strict_sorted_iff)
qed

lemma hashList_cached:
  assumes "ownVotes tb (epoch, RoundsNumber tb) = Some votes"
    and "visitsEachKeyOnce env (ValidVotes votes)"
  shows "calcTortoiseBeaconHashList env tb epoch = (Inr (sorted_list_of_set (ValidVotes votes)), tb)"
  using assms by (simp add: calcTortoiseBeaconHashList_def lastPossibleRound_def sort_rangeKeys)

lemma hashList_recalculated:
  assumes "ownVotes tb (epoch, RoundsNumber tb) = None"
    and "calcVotes env tb epoch (RoundsNumber tb) = (Inr v, tb1)"
    and "visitsEachKeyOnce env (ValidVotes v)"
  shows "calcTortoiseBeaconHashList env tb epoch =
           (Inr (sorted_list_of_set (ValidVotes v)),
            tb1\<lparr>ownVotes := (ownVotes tb1)((epoch, RoundsNumber tb) \<mapsto> v)\<rparr>)"
  using assms by (simp add: calcTortoiseBeaconHashList_def lastPossibleRound_def sort_rangeKeys)

lemma calcBeacon_stores:
  assumes "calcTortoiseBeaconHashList env tb epoch = (Inr hl, tb1)"
  shows "snd (calcBeacon env tb epoch) = tb1\<lparr>beacons := (beacons tb1)(epoch \<mapsto> Hash hl)\<rparr>"
  using assms by (simp add: calcBeacon_def Let_def split: option.splits)

lemma hashList_S1:
  "calcTortoiseBeaconHashList env0 tb_S1 5 = (Inr [''0x1'', ''0x2'', ''0x4'', ''0x5''], tb_S1)"
  by (simp add: calcTortoiseBeaconHashList_def lastPossibleRound_def tb_S1_def tb0_def env0_def
      votes_S1_def)

lemma visits_S1: "visitsEachKeyOnce env0 (ValidVotes votes_S1)"
  by (auto simp: visitsEachKeyOnce_def env0_def votes_S1_def)

lemma sorted_S1: "sorted_list_of_set (ValidVotes votes_S1) = [''0x1'', ''0x2'', ''0x4'', ''0x5'']"
  by (simp add: votes_S1_def)

text \<open>
  C1. When the own votes of the last round are recorded, the hash list is the list of
  their valid votes in ascending order of the strings, each once, whatever the order in
  which \<open>range\<close> visits them, and \<open>calcBeacon\<close> stores the digest of that list as the
  beacon of the epoch. When they are not recorded and the vote calculation returns
  votes, these votes are recorded as the own votes of the last round, and the hash list
  and the beacon come from them in the same way. For S1 (three rounds, epoch 5, valid
  votes \<open>0x1, 0x2, 0x4, 0x5\<close>) the list is \<open>0x1, 0x2, 0x4, 0x5\<close> and the beacon is
  \<open>0xd04dd0faf9b5d3baf04dd99152971b5db67b0b3c79e5cc59f8f7b03ab20673f8\<close>.
\<close>

theorem beacon_derivation:
  "(ownVotes tb (epoch, RoundsNumber tb) = Some votes \<longrightarrow>
    visitsEachKeyOnce env (ValidVotes votes) \<longrightarrow>
      calcTortoiseBeaconHashList env tb epoch = (Inr (sorted_list_of_set (ValidVotes votes)), tb) \<and>
      sorted_wrt (<) (sorted_list_of_set (ValidVotes votes)) \<and>
      set (sorted_list_of_set (ValidVotes votes)) = ValidVotes votes \<and>
      snd (calcBeacon env tb epoch) =
        tb\<lparr>beacons := (beacons tb)(epoch \<mapsto> Hash (sorted_list_of_set (ValidVotes votes)))\<rparr>) \<and>
   (ownVotes tb (epoch, RoundsNumber tb) = None \<longrightarrow>
    calcVotes env tb epoch (RoundsNumber tb) = (Inr v, tb1) \<longrightarrow>
    visitsEachKeyOnce env (ValidVotes v) \<longrightarrow>
      calcTortoiseBeaconHashList env tb epoch =
        (Inr (sorted_list_of_set (ValidVotes v)),
         tb1\<lparr>ownVotes := (ownVotes tb1)((epoch, RoundsNumber tb) \<mapsto> v)\<rparr>) \<and>
      sorted_wrt (<) (sorted_list_of_set (ValidVotes v)) \<and>
      set (sorted_list_of_set (ValidVotes v)) = ValidVotes v \<and>
      snd (calcBeacon env tb epoch) =
        tb1\<lparr>ownVotes := (ownVotes tb1)((epoch, RoundsNumber tb) \<mapsto> v),
            beacons := (beacons tb1)(epoch \<mapsto> Hash (sorted_list_of_set (ValidVotes v)))\<rparr>) \<and>
   calcTortoiseBeaconHashList env0 tb_S1 5 = (Inr [''0x1'', ''0x2'', ''0x4'', ''0x5''], tb_S1) \<and>
   beacons (snd (calcBeacon env0 tb_S1 5)) 5 =
     Some (HexToHash32 ''0xd04dd0faf9b5d3baf04dd99152971b5db67b0b3c79e5cc59f8f7b03ab20673f8'')"
proof (intro conjI impI)
  assume own: "ownVotes tb (epoch, RoundsNumber tb) = Some votes"
    and vis: "visitsEachKeyOnce env (ValidVotes votes)"
  show hl: "calcTortoiseBeaconHashList env tb epoch =
      (Inr (sorted_list_of_set (ValidVotes votes)), tb)"
    using own vis by (rule hashList_cached)
  show "sorted_wrt (<) (sorted_list_of_set (ValidVotes votes))"
    and "set (sorted_list_of_set (ValidVotes votes)) = ValidVotes votes"
    using hash_list_sorted [OF vis] by simp_all
  show "snd (calcBeacon env tb epoch) =
        tb\<lparr>beacons := (beacons tb)(epoch \<mapsto> Hash (sorted_list_of_set (ValidVotes votes)))\<rparr>"
    using hl by (rule calcBeacon_stores)
next
  assume none: "ownVotes tb (epoch, RoundsNumber tb) = None"
    and cv: "calcVotes env tb epoch (RoundsNumber tb) = (Inr v, tb1)"
    and vis: "visitsEachKeyOnce env (ValidVotes v)"
  show hl: "calcTortoiseBeaconHashList env tb epoch =
        (Inr (sorted_list_of_set (ValidVotes v)),
         tb1\<lparr>ownVotes := (ownVotes tb1)((epoch, RoundsNumber tb) \<mapsto> v)\<rparr>)"
    using none cv vis by (rule hashList_recalculated)
  show "sorted_wrt (<) (sorted_list_of_set (ValidVotes v))"
    and "set (sorted_list_of_set (ValidVotes v)) = ValidVotes v"
    using hash_list_sorted [OF vis] by simp_all
  show "snd (calcBeacon env tb epoch) =
        tb1\<lparr>ownVotes := (ownVotes tb1)((epoch, RoundsNumber tb) \<mapsto> v),
            beacons := (beacons tb1)(epoch \<mapsto> Hash (sorted_list_of_set (ValidVotes v)))\<rparr>"
    using calcBeacon_stores [OF hl] by simp
next
  show "calcTortoiseBeaconHashList env0 tb_S1 5 = (Inr [''0x1'', ''0x2'', ''0x4'', ''0x5''], tb_S1)"
    by (rule hashList_S1)
  show "beacons (snd (calcBeacon env0 tb_S1 5)) 5 =
     Some (HexToHash32 ''0xd04dd0faf9b5d3baf04dd99152971b5db67b0b3c79e5cc59f8f7b03ab20673f8'')"
    using calcBeacon_stores [OF hashList_S1] by (simp add: Hash_S1)
qed

text \<open>
  The recorded votes of S1, visited in descending order, give the ascending list; and a
  node without recorded votes whose vote calculation returns the votes of S1 records
  them and gives the same list.
\<close>

theorem beacon_derivation_witness:
  "ownVotes tb_S1 (5, RoundsNumber tb_S1) = Some votes_S1 \<and>
   visitsEachKeyOnce env0 (ValidVotes votes_S1) \<and>
   rangeKeys env0 (ValidVotes votes_S1) = [''0x5'', ''0x4'', ''0x2'', ''0x1''] \<and>
   calcTortoiseBeaconHashList env0 tb_S1 5 = (Inr [''0x1'', ''0x2'', ''0x4'', ''0x5''], tb_S1) \<and>
   ownVotes tb0 (5, RoundsNumber tb0) = None \<and>
   calcVotes env_recalc tb0 5 (RoundsNumber tb0) = (Inr votes_S1, tb0) \<and>
   visitsEachKeyOnce env_recalc (ValidVotes votes_S1) \<and>
   calcTortoiseBeaconHashList env_recalc tb0 5 = (Inr [''0x1'', ''0x2'', ''0x4'', ''0x5''], tb_S1)"
proof -
  have h1: "ownVotes tb_S1 (5, RoundsNumber tb_S1) = Some votes_S1"
    by (simp add: tb_S1_def tb0_def)
  have h2: "visitsEachKeyOnce env0 (ValidVotes votes_S1)"
    by (rule visits_S1)
  have h3: "ownVotes tb0 (5, RoundsNumber tb0) = None"
    by (simp add: tb0_def)
  have h4: "calcVotes env_recalc tb0 5 (RoundsNumber tb0) = (Inr votes_S1, tb0)"
    by (simp add: env_recalc_def)
  have h5: "visitsEachKeyOnce env_recalc (ValidVotes votes_S1)"
    using visits_S1 by (simp add: visitsEachKeyOnce_def env_recalc_def)
  have r: "rangeKeys env0 (ValidVotes votes_S1) = [''0x5'', ''0x4'', ''0x2'', ''0x1'']"
    by (simp add: env0_def votes_S1_def)
  have t: "tb0\<lparr>ownVotes := (ownVotes tb0)((5, RoundsNumber tb0) \<mapsto> votes_S1)\<rparr> = tb_S1"
    by (simp add: tb_S1_def tb0_def)
  show ?thesis
    using h1 h2 h3 h4 h5 r
      beacon_derivation [of tb_S1 5 votes_S1 env0]
      beacon_derivation [of tb0 5 _ env_recalc votes_S1 tb0]
    by (simp add: sorted_S1 t)
qed

end
